theory Spec2Isabelle
  imports Complex_Main "HOL-Library.Sublist"
begin

section \<open>Data model of the policy engine (policyEngine.ts, paramLoader.ts)\<close>

text \<open>
  A JavaScript \<open>number\<close> is modelled as a \<open>real\<close>: the comparisons of the source are
  exact on finite doubles, and the arithmetic is the exact one (no rounding, no NaN, no
  infinity). A field that may be \<open>null\<close> or \<open>undefined\<close> is an \<open>option\<close>, with \<open>None\<close> for
  either.
\<close>

datatype side = UP | DOWN

text \<open>A property whose source test tells \<open>undefined\<close> from \<open>null\<close>.\<close>

datatype 'a field = Undefined | Null | Defined 'a

record TapeState =
  timestamp :: real
  up_px :: real
  down_px :: real
  market :: string

record PriceHistory =
  h_timestamp :: real
  h_up_px :: real
  h_down_px :: real

record Features =
  delta_1s_side_px :: "real option"
  delta_5s_side_px :: "real option"
  delta_30s_side_px :: "real option"
  delta_1s_up_px :: "real option"
  delta_5s_up_px :: "real option"
  delta_30s_up_px :: "real option"
  delta_1s_down_px :: "real option"
  delta_5s_down_px :: "real option"
  delta_30s_down_px :: "real option"
  volatility_5s :: "real option"
  volatility_30s :: "real option"
  distance_from_50 :: real

record InventoryState =
  inv_up_shares :: real
  inv_down_shares :: real
  avg_cost_up :: "real option"
  avg_cost_down :: "real option"

record InventoryParams =
  rebalance_ratio_R :: real
  max_up_shares :: real
  max_down_shares :: real
  max_total_shares :: real

record CadenceParams =
  min_inter_trade_ms :: real
  p50_inter_trade_ms :: real
  p95_inter_trade_ms :: real
  max_trades_per_sec :: real
  max_trades_per_min :: real

record EntryParams =
  up_price_min :: "real option"
  up_price_max :: "real option"
  down_price_min :: "real option"
  down_price_max :: "real option"
  momentum_window_s :: real
  momentum_threshold :: real
  mode :: string

text \<open>Modelled from the spec: the fields \<open>size_table_1d\<close>, \<open>inventory_bucket_thresholds\<close> and
  \<open>inventory_buckets\<close> of \<open>SizeParams\<close>, which \<open>sizeForTrade\<close> reads and the interface in the
  paramLoader.ts of this repository does not declare. Each field may be missing from the
  parameter document. A size table is a JSON object: its properties in order, keys distinct.\<close>

record SizeParams =
  bin_edges :: "real list option"
  size_table :: "(string \<times> real) list option"
  size_table_1d :: "(string \<times> real) list option"
  conditioning_var :: "string option"
  inventory_bucket_thresholds :: "real list option"
  inventory_buckets :: "string list option"

text \<open>Modelled from the spec: the interfaces \<open>SideSelectionParams\<close>, \<open>ExecutionParams\<close>,
  \<open>CooldownParams\<close>, \<open>RiskParams\<close>, \<open>QualityFilterParams\<close> and \<open>ResetParams\<close> and the six
  fields of \<open>MarketParams\<close> that hold them. policyEngine.ts imports them from paramLoader,
  whose copy in this repository does not declare them; the fields are those of section 3
  of the specification, with the types policyEngine.ts uses them at.\<close>

record SideSelectionParams =
  ss_mode :: string
  preferred_side :: "side option"
  confidence_gap :: "real field"

record ExecutionParams =
  model_type :: string
  slippage_offset :: real
  fill_bias_median :: "real option"
  fill_bias_p75 :: "real option"

record CooldownParams =
  has_time_cooldown :: bool
  time_cooldown_seconds :: real
  price_move_threshold :: "real option"
  has_inventory_lockout :: bool
  inventory_lockout_threshold :: "real option"

record RiskParams =
  max_trades_per_session :: "real option"
  max_imbalance_ratio :: real
  max_exposure_up_shares :: real
  max_exposure_down_shares :: real

record QualityFilterParams =
  max_price_sum_deviation :: real
  timestamp_jump_threshold_seconds :: real
  price_gap_threshold :: real

record ResetParams =
  resets_on_market_switch :: bool
  resets_on_inactivity :: bool
  inactivity_threshold_hours :: real

record MarketParams =
  entry_params :: "EntryParams option"
  size_params :: "SizeParams option"
  inventory_params :: "InventoryParams option"
  cadence_params :: "CadenceParams option"
  side_selection_params :: "SideSelectionParams option"
  execution_params :: "ExecutionParams option"
  cooldown_params :: "CooldownParams option"
  risk_params :: "RiskParams option"
  quality_filter_params :: "QualityFilterParams option"
  reset_params :: "ResetParams option"

record EntrySignal =
  should_trade :: bool
  side :: "side option"
  reason :: string

text \<open>The only exception the modelled code can raise: reading a property of \<open>undefined\<close>.\<close>

datatype error = TypeError

section \<open>Feature computation (PolicyEngine.computeFeatures)\<close>

text \<open>The features object as created at the top of \<open>computeFeatures\<close>: only
  \<open>distance_from_50\<close> is set.\<close>

definition initFeatures :: "TapeState \<Rightarrow> Features" where
  "initFeatures state =
     \<lparr> delta_1s_side_px = None, delta_5s_side_px = None, delta_30s_side_px = None,
       delta_1s_up_px = None, delta_5s_up_px = None, delta_30s_up_px = None,
       delta_1s_down_px = None, delta_5s_down_px = None, delta_30s_down_px = None,
       volatility_5s = None, volatility_30s = None,
       distance_from_50 = \<bar>up_px state - 0.5\<bar> \<rparr>"

text \<open>The loop of \<open>findClosest\<close>: the running pair is \<open>(closest, minDiff)\<close>, replaced only
  by a strictly smaller distance, so the first entry at the minimal distance wins.\<close>

fun findClosest_loop :: "real \<Rightarrow> PriceHistory list \<Rightarrow> PriceHistory \<times> real \<Rightarrow> PriceHistory \<times> real" where
  "findClosest_loop targetTs [] acc = acc"
| "findClosest_loop targetTs (h # hs) (closest, minDiff) =
     (let diff = \<bar>h_timestamp h - targetTs\<bar>
      in if diff < minDiff then findClosest_loop targetTs hs (h, diff)
         else findClosest_loop targetTs hs (closest, minDiff))"

text \<open>\<open>findClosest\<close> starts from \<open>sortedHistory[0]\<close>; the first entry is passed apart
  because the function is only reached with a non-empty history.\<close>

definition findClosest :: "PriceHistory \<Rightarrow> PriceHistory list \<Rightarrow> real \<Rightarrow> PriceHistory" where
  "findClosest h0 sortedHistory targetTs =
     fst (findClosest_loop targetTs sortedHistory (h0, \<bar>h_timestamp h0 - targetTs\<bar>))"

text \<open>One round of the \<open>[1, 5, 30].forEach\<close> loop: the deltas against the closest entry,
  when that entry lies within twice the window.\<close>

definition windowDelta :: "TapeState \<Rightarrow> PriceHistory \<Rightarrow> PriceHistory list \<Rightarrow> real \<Rightarrow> (real \<times> real) option" where
  "windowDelta state h0 sortedHistory seconds =
     (let windowTs = timestamp state - seconds * 1000;
          past = findClosest h0 sortedHistory windowTs
      in if \<bar>h_timestamp past - windowTs\<bar> < seconds * 2000
         then Some (up_px state - h_up_px past, down_px state - h_down_px past)
         else None)"

text \<open>One round of the \<open>[5, 30].forEach\<close> loop: the population standard deviation of the
  UP prices of the window, when it holds more than one sample.\<close>

definition windowVolatility :: "TapeState \<Rightarrow> PriceHistory list \<Rightarrow> real \<Rightarrow> real option" where
  "windowVolatility state sortedHistory seconds =
     (let now = timestamp state;
          windowTs = now - seconds * 1000;
          windowPrices = map h_up_px (filter (\<lambda>h. h_timestamp h \<ge> windowTs \<and> h_timestamp h \<le> now) sortedHistory)
      in if length windowPrices > 1
         then (let mean = sum_list windowPrices / real (length windowPrices);
                   variance = sum_list (map (\<lambda>p. (p - mean) ^ 2) windowPrices) / real (length windowPrices)
               in Some (sqrt variance))
         else None)"

definition computeFeatures :: "TapeState \<Rightarrow> PriceHistory list \<Rightarrow> Features" where
  "computeFeatures state history =
     (let features = initFeatures state
      in if length history = 0 then features
         else (case sort_key h_timestamp history of
                 [] \<Rightarrow> features
               | h0 # rest \<Rightarrow>
                  (let sortedHistory = h0 # rest;
                       d1 = windowDelta state h0 sortedHistory 1;
                       d5 = windowDelta state h0 sortedHistory 5;
                       d30 = windowDelta state h0 sortedHistory 30
                   in features
                       \<lparr> delta_1s_side_px := map_option fst d1,
                         delta_5s_side_px := map_option fst d5,
                         delta_30s_side_px := map_option fst d30,
                         delta_1s_up_px := map_option fst d1,
                         delta_5s_up_px := map_option fst d5,
                         delta_30s_up_px := map_option fst d30,
                         delta_1s_down_px := map_option snd d1,
                         delta_5s_down_px := map_option snd d5,
                         delta_30s_down_px := map_option snd d30,
                         volatility_5s := windowVolatility state sortedHistory 5,
                         volatility_30s := windowVolatility state sortedHistory 30 \<rparr>)))"

section \<open>Inventory gate (PolicyEngine.inventoryOkAndRebalance)\<close>

definition inventoryOkAndRebalance :: "InventoryState \<Rightarrow> InventoryParams option \<Rightarrow> side \<Rightarrow> side option" where
  "inventoryOkAndRebalance inventory inventoryParams proposedSide =
     (case inventoryParams of
        None \<Rightarrow> Some proposedSide
      | Some ip \<Rightarrow>
         (let total = inv_up_shares inventory + inv_down_shares inventory
          in if total \<ge> max_total_shares ip then None
             else if proposedSide = UP \<and> inv_up_shares inventory \<ge> max_up_shares ip then None
             else if proposedSide = DOWN \<and> inv_down_shares inventory \<ge> max_down_shares ip then None
             else Some proposedSide))"

section \<open>Cadence gate (PolicyEngine.cadenceOk)\<close>

definition tradesInWindow :: "real list \<Rightarrow> real \<Rightarrow> real \<Rightarrow> nat" where
  "tradesInWindow recentTradeTimes windowStart currentTs =
     length (filter (\<lambda>ts. ts \<ge> windowStart \<and> ts \<le> currentTs) recentTradeTimes)"

definition cadenceOk :: "real option \<Rightarrow> real list \<Rightarrow> CadenceParams option \<Rightarrow> real \<Rightarrow> bool" where
  "cadenceOk lastTradeTs recentTradeTimes cadenceParams currentTs =
     (case cadenceParams of
        None \<Rightarrow> True
      | Some cp \<Rightarrow>
         if (case lastTradeTs of
               None \<Rightarrow> False
             | Some l \<Rightarrow> min_inter_trade_ms cp > 0 \<and> currentTs - l < min_inter_trade_ms cp)
         then False
         else if real (tradesInWindow recentTradeTimes (currentTs - 1000) currentTs) \<ge> max_trades_per_sec cp
         then False
         else if real (tradesInWindow recentTradeTimes (currentTs - 60000) currentTs) \<ge> max_trades_per_min cp
         then False
         else True)"

section \<open>Entry signal (PolicyEngine.entrySignal, PolicyEngine.checkSideEntry)\<close>

definition IGNORE_ENTRY_BANDS :: bool where
  "IGNORE_ENTRY_BANDS = True"

text \<open>The band test written out twice in the source:
  \<open>min !== null && max !== null && px >= min && px <= max\<close>.\<close>

definition inBand :: "real option \<Rightarrow> real option \<Rightarrow> real \<Rightarrow> bool" where
  "inBand lo hi px =
     (case lo of None \<Rightarrow> False
      | Some a \<Rightarrow> (case hi of None \<Rightarrow> False | Some b \<Rightarrow> px \<ge> a \<and> px \<le> b))"

text \<open>The momentum/reversion block, the same for both sides: the signal and its reason.\<close>

definition modeCheck :: "EntryParams \<Rightarrow> real \<Rightarrow> string \<Rightarrow> bool \<times> string" where
  "modeCheck ep delta bandReason =
     (if mode ep = ''momentum''
      then (if delta < momentum_threshold ep then (False, ''momentum_not_met'') else (True, ''momentum_met''))
      else if mode ep = ''reversion''
      then (if delta > - momentum_threshold ep then (False, ''reversion_not_met'') else (True, ''reversion_met''))
      else (True, bandReason))"

text \<open>\<open>entrySignal\<close> with the module constant \<open>IGNORE_ENTRY_BANDS\<close> as the argument
  \<open>ignoreBands\<close>.\<close>

definition entrySignalWith :: "bool \<Rightarrow> TapeState \<Rightarrow> Features \<Rightarrow> EntryParams option \<Rightarrow> EntrySignal" where
  "entrySignalWith ignoreBands state features entryParams =
     (case entryParams of
        None \<Rightarrow> \<lparr> should_trade = False, side = None, reason = ''no_entry_params'' \<rparr>
      | Some ep \<Rightarrow>
         (let upInBand = (ignoreBands \<or> inBand (up_price_min ep) (up_price_max ep) (up_px state));
              downInBand = (ignoreBands \<or> inBand (down_price_min ep) (down_price_max ep) (down_px state));
              delta5s = (case delta_5s_side_px features of None \<Rightarrow> 0 | Some d \<Rightarrow> d);
              up = modeCheck ep delta5s ''up_price_band''
          in if upInBand \<and> fst up
             then \<lparr> should_trade = True, side = Some UP, reason = snd up \<rparr>
             else (let delta5sDown = (case delta_5s_down_px features of None \<Rightarrow> delta5s | Some d \<Rightarrow> d);
                       down = modeCheck ep delta5sDown ''down_price_band''
                   in if downInBand \<and> fst down
                      then \<lparr> should_trade = True, side = Some DOWN, reason = snd down \<rparr>
                      else \<lparr> should_trade = False, side = None, reason = ''no_band_match'' \<rparr>)))"

definition entrySignal :: "TapeState \<Rightarrow> Features \<Rightarrow> EntryParams option \<Rightarrow> EntrySignal" where
  "entrySignal = entrySignalWith IGNORE_ENTRY_BANDS"

definition checkSideEntry :: "TapeState \<Rightarrow> Features \<Rightarrow> EntryParams option \<Rightarrow> side \<Rightarrow> EntrySignal" where
  "checkSideEntry state features entryParams sd =
     (case entryParams of
        None \<Rightarrow> \<lparr> should_trade = False, side = None, reason = ''no_entry_params'' \<rparr>
      | Some ep \<Rightarrow>
         (let delta5s = (case delta_5s_side_px features of None \<Rightarrow> 0 | Some d \<Rightarrow> d)
          in if sd = UP
             then (if \<not> inBand (up_price_min ep) (up_price_max ep) (up_px state)
                   then \<lparr> should_trade = False, side = None, reason = ''up_price_not_in_band'' \<rparr>
                   else (let up = modeCheck ep delta5s ''up_price_band''
                         in \<lparr> should_trade = fst up, side = (if fst up then Some UP else None),
                              reason = snd up \<rparr>))
             else (if \<not> inBand (down_price_min ep) (down_price_max ep) (down_px state)
                   then \<lparr> should_trade = False, side = None, reason = ''down_price_not_in_band'' \<rparr>
                   else (let delta5sDown = (case delta_5s_down_px features of None \<Rightarrow> delta5s | Some d \<Rightarrow> d);
                             down = modeCheck ep delta5sDown ''down_price_band''
                         in \<lparr> should_trade = fst down, side = (if fst down then Some DOWN else None),
                              reason = snd down \<rparr>))))"

section \<open>Sizing (PolicyEngine.sizeForTrade)\<close>

subsection \<open>Numbers in template literals\<close>

text \<open>
  The bucket keys are built with template literals, which print a number with JavaScript's
  \<open>Number::toString\<close>. For a decimal fraction with few digits, as written in a parameter
  file, that is its decimal expansion: the integer part, and after a dot the fractional
  digits, when there are any. \<open>numToString\<close> prints that expansion (at most 17 fractional
  digits); the exponent notation of very large and very small numbers is not modelled.
\<close>

definition digitChar :: "nat \<Rightarrow> char" where
  "digitChar d = ''0123456789'' ! d"

function natToString :: "nat \<Rightarrow> string" where
  "natToString n = (if n < 10 then [digitChar n] else natToString (n div 10) @ [digitChar (n mod 10)])"
  by pat_completeness auto
termination
  by (relation "measure id") auto

declare natToString.simps [simp del]

fun fracDigits :: "nat \<Rightarrow> real \<Rightarrow> string" where
  "fracDigits 0 r = []"
| "fracDigits (Suc k) r =
     (if r = 0 then []
      else (let d = nat \<lfloor>r * 10\<rfloor> in digitChar d # fracDigits k (r * 10 - real d)))"

definition numToString :: "real \<Rightarrow> string" where
  "numToString x =
     (let a = \<bar>x\<bar>; n = nat \<lfloor>a\<rfloor>; f = a - real n
      in (if x < 0 then ''-'' else []) @ natToString n @
         (if f = 0 then [] else ''.'' @ fracDigits 17 f))"

subsection \<open>Bucket selection and table lookup\<close>

text \<open>The price-bucket loop: the first \<open>i < length - 1\<close> with
  \<open>leftEdge < sidePx \<le> rightEdge\<close>, the left edge of bucket 0 being \<open>-0.001\<close>.\<close>

definition findPriceBucket :: "real list \<Rightarrow> real \<Rightarrow> nat option" where
  "findPriceBucket binEdges sidePx =
     List.find (\<lambda>i. sidePx > (if i = 0 then - 0.001 else binEdges ! i) \<and> sidePx \<le> binEdges ! (i + 1))
       [0 ..< length binEdges - 1]"

definition priceBucketIndexOf :: "real list \<Rightarrow> real \<Rightarrow> nat" where
  "priceBucketIndexOf binEdges sidePx =
     (case findPriceBucket binEdges sidePx of
        Some i \<Rightarrow> i
      | None \<Rightarrow> if sidePx \<le> binEdges ! 0 then 0 else length binEdges - 2)"

definition priceBucketKeyOf :: "real list \<Rightarrow> nat \<Rightarrow> string" where
  "priceBucketKeyOf binEdges priceBucketIndex =
     (if priceBucketIndex = 0
      then ''(-0.001, '' @ numToString (binEdges ! 1) @ '']''
      else ''('' @ numToString (binEdges ! priceBucketIndex) @ '', '' @
           numToString (binEdges ! (priceBucketIndex + 1)) @ '']'')"

text \<open>\<open>table || {}\<close> followed by \<open>table[key]\<close>: \<open>None\<close> is \<open>undefined\<close>.\<close>

definition tableGet :: "(string \<times> real) list option \<Rightarrow> string \<Rightarrow> real option" where
  "tableGet table key = (case table of None \<Rightarrow> None | Some t \<Rightarrow> map_of t key)"

text \<open>\<open>sizeTable1d[priceBucketKey] || 1.0\<close>: a missing entry and the entry 0 both give 1.\<close>

definition tableGetOr1 :: "(string \<times> real) list option \<Rightarrow> string \<Rightarrow> real" where
  "tableGetOr1 table key =
     (case tableGet table key of None \<Rightarrow> 1 | Some v \<Rightarrow> if v = 0 then 1 else v)"

text \<open>The median fallback over \<open>Object.values(sizeTable)\<close>, then the constant 1.\<close>

definition medianOr1 :: "(string \<times> real) list option \<Rightarrow> real" where
  "medianOr1 table =
     (let allSizes = (case table of None \<Rightarrow> [] | Some t \<Rightarrow> map snd t)
      in if length allSizes > 0 then sort allSizes ! (length allSizes div 2) else 1)"

text \<open>The inventory-bucket loop: the first \<open>i\<close> with \<open>ratio \<le> thresholds[i+1]\<close>, else 0;
  a ratio above the last threshold takes the last bucket.\<close>

definition invBucketIndexOf :: "real list \<Rightarrow> real \<Rightarrow> nat" where
  "invBucketIndexOf thresholds imbalanceRatio =
     (let found = (case List.find (\<lambda>i. imbalanceRatio \<le> thresholds ! (i + 1)) [0 ..< length thresholds - 1] of
                     None \<Rightarrow> 0 | Some i \<Rightarrow> i)
      in if imbalanceRatio > thresholds ! (length thresholds - 1) then length thresholds - 2 else found)"

text \<open>\<open>sizeParams.inventory_buckets?.[i] || `bucket_${i}`\<close>.\<close>

definition inventoryBucketLabelOf :: "string list option \<Rightarrow> nat \<Rightarrow> string" where
  "inventoryBucketLabelOf buckets i =
     (case buckets of
        None \<Rightarrow> ''bucket_'' @ natToString i
      | Some bs \<Rightarrow> if i < length bs \<and> bs ! i \<noteq> [] then bs ! i else ''bucket_'' @ natToString i)"

text \<open>Fallback 1: the first inventory bucket whose 2D key is in the table.\<close>

fun otherBucketLookup :: "(string \<times> real) list option \<Rightarrow> string \<Rightarrow> string list \<Rightarrow> real option" where
  "otherBucketLookup table priceBucketKey [] = None"
| "otherBucketLookup table priceBucketKey (invBucket # rest) =
     (case tableGet table (priceBucketKey @ ''|'' @ invBucket) of
        Some v \<Rightarrow> Some v
      | None \<Rightarrow> otherBucketLookup table priceBucketKey rest)"

text \<open>The inventory argument is an \<open>option\<close>: \<open>None\<close> is a call that leaves it out, and
  reading \<open>inventory.inv_up_shares\<close> then throws.\<close>

definition sizeForTrade :: "TapeState \<Rightarrow> Features \<Rightarrow> SizeParams option \<Rightarrow> side \<Rightarrow> InventoryState option \<Rightarrow> error + real" where
  "sizeForTrade state features sizeParams sd inventory =
     (case sizeParams of
        None \<Rightarrow> Inr 1
      | Some sp \<Rightarrow>
         (let sidePx = (if sd = UP then up_px state else down_px state);
              binEdges = (case bin_edges sp of None \<Rightarrow> [] | Some es \<Rightarrow> es)
          in if length binEdges < 2 then Inr 1
             else
              (let priceBucketKey = priceBucketKeyOf binEdges (priceBucketIndexOf binEdges sidePx)
               in if conditioning_var sp = None \<or> conditioning_var sp = Some []
                  then (case tableGet (size_table_1d sp) priceBucketKey of
                          Some v \<Rightarrow> Inr v
                        | None \<Rightarrow>
                           (case tableGet (size_table sp) priceBucketKey of
                              Some v \<Rightarrow> Inr v
                            | None \<Rightarrow> Inr (medianOr1 (size_table sp))))
                  else if conditioning_var sp = Some ''inventory_imbalance_ratio''
                  then (case inventory of
                          None \<Rightarrow> Inl TypeError
                        | Some invt \<Rightarrow>
                           (let imbalanceRatio = inv_up_shares invt / max (inv_down_shares invt) (1 / 10 ^ 6);
                                thresholds = (case inventory_bucket_thresholds sp of None \<Rightarrow> [] | Some ts \<Rightarrow> ts)
                            in if length thresholds < 2
                               then Inr (tableGetOr1 (size_table_1d sp) priceBucketKey)
                               else
                                (let invBucketIndex = invBucketIndexOf thresholds imbalanceRatio;
                                     key2d = priceBucketKey @ ''|'' @
                                             inventoryBucketLabelOf (inventory_buckets sp) invBucketIndex
                                 in case tableGet (size_table sp) key2d of
                                      Some v \<Rightarrow> Inr v
                                    | None \<Rightarrow>
                                       (case otherBucketLookup (size_table sp) priceBucketKey
                                               (case inventory_buckets sp of None \<Rightarrow> [] | Some bs \<Rightarrow> bs) of
                                          Some v \<Rightarrow> Inr v
                                        | None \<Rightarrow>
                                           (case tableGet (size_table_1d sp) priceBucketKey of
                                              Some v \<Rightarrow> Inr v
                                            | None \<Rightarrow> Inr (medianOr1 (size_table sp)))))))
                  else Inr (tableGetOr1 (size_table_1d sp) priceBucketKey))))"

section \<open>Side selection, execution model and the remaining gates of PolicyEngine\<close>

definition inventoryFirstTieBreak :: "TapeState \<Rightarrow> InventoryState \<Rightarrow> side" where
  "inventoryFirstTieBreak state inventory =
     (let total = inv_up_shares inventory + inv_down_shares inventory;
          eps = 1 / 10 ^ 6;
          byEdge = (if \<bar>up_px state - 0.5\<bar> > \<bar>down_px state - 0.5\<bar> then UP else DOWN)
      in if total < eps then byEdge
         else (let imbalanceRatio = inv_up_shares inventory / max (inv_down_shares inventory) eps
               in if imbalanceRatio > 1 then DOWN
                  else if imbalanceRatio < 1 then UP
                  else byEdge))"

text \<open>The test \<open>confidence_gap !== undefined && confidence_gap < 0.10\<close> holds for \<open>null\<close>, which
  compares as 0.\<close>

definition selectSideWhenBothValid ::
  "TapeState \<Rightarrow> Features \<Rightarrow> InventoryState \<Rightarrow> SideSelectionParams option \<Rightarrow> bool \<Rightarrow> bool \<Rightarrow> side option" where
  "selectSideWhenBothValid state features inventory sideSelectionParams entrySignalUp entrySignalDown =
     (if \<not> entrySignalUp \<and> \<not> entrySignalDown then None
      else if entrySignalUp \<and> \<not> entrySignalDown then Some UP
      else if entrySignalDown \<and> \<not> entrySignalUp then Some DOWN
      else (case sideSelectionParams of
              None \<Rightarrow> Some (inventoryFirstTieBreak state inventory)
            | Some ssp \<Rightarrow>
               if ss_mode ssp = ''mixed'' \<or>
                  (case confidence_gap ssp of Undefined \<Rightarrow> False | Null \<Rightarrow> True | Defined g \<Rightarrow> g < 0.10)
               then Some (inventoryFirstTieBreak state inventory)
               else if ss_mode ssp = ''inventory_driven'' then Some (inventoryFirstTieBreak state inventory)
               else if ss_mode ssp = ''edge_driven''
               then Some (if \<bar>up_px state - 0.5\<bar> > \<bar>down_px state - 0.5\<bar> then UP else DOWN)
               else if ss_mode ssp = ''momentum_driven''
               then (let delta5s = (case delta_5s_side_px features of None \<Rightarrow> 0 | Some d \<Rightarrow> d)
                     in if delta5s > 0.001 then Some UP
                        else if delta5s < - 0.001 then Some DOWN
                        else Some (inventoryFirstTieBreak state inventory))
               else if ss_mode ssp = ''alternating'' then Some (inventoryFirstTieBreak state inventory)
               else if ss_mode ssp = ''fixed_preference''
               then Some (case preferred_side ssp of None \<Rightarrow> UP | Some sd \<Rightarrow> sd)
               else Some (inventoryFirstTieBreak state inventory)))"

text \<open>\<open>x || 0\<close> on an optional number.\<close>

definition orZero :: "real option \<Rightarrow> real" where
  "orZero x = (case x of None \<Rightarrow> 0 | Some v \<Rightarrow> v)"

definition simulateFillPrice :: "side \<Rightarrow> real \<Rightarrow> ExecutionParams option \<Rightarrow> real" where
  "simulateFillPrice sd snapshotSidePx executionParams =
     (case executionParams of
        None \<Rightarrow> snapshotSidePx
      | Some xp \<Rightarrow>
         if model_type xp = ''snapshot_price'' then snapshotSidePx
         else if model_type xp = ''fixed_slippage'' then snapshotSidePx + slippage_offset xp
         else if model_type xp = ''mid_price'' then snapshotSidePx + orZero (fill_bias_median xp)
         else if model_type xp = ''worst_case''
         then snapshotSidePx +
              (if orZero (fill_bias_p75 xp) \<noteq> 0 then orZero (fill_bias_p75 xp)
               else orZero (fill_bias_median xp))
         else snapshotSidePx)"

definition checkCooldown ::
  "real option \<Rightarrow> real \<Rightarrow> Features \<Rightarrow> InventoryState \<Rightarrow> CooldownParams option \<Rightarrow> bool" where
  "checkCooldown lastTradeTs currentTs features inventory cooldownParams =
     (case cooldownParams of
        None \<Rightarrow> True
      | Some cd \<Rightarrow>
         if (case lastTradeTs of
               None \<Rightarrow> False
             | Some l \<Rightarrow> has_time_cooldown cd \<and> (currentTs - l) / 1000 < time_cooldown_seconds cd)
         then False
         else if (case (price_move_threshold cd, lastTradeTs) of
                    (Some thr, Some l) \<Rightarrow>
                      (currentTs - l) / 1000 < 5 \<and> \<bar>orZero (delta_5s_side_px features)\<bar> < thr
                  | _ \<Rightarrow> False)
         then False
         else if (case inventory_lockout_threshold cd of
                    None \<Rightarrow> False
                  | Some thr \<Rightarrow>
                     has_inventory_lockout cd \<and>
                     (let total = inv_up_shares inventory + inv_down_shares inventory
                      in total > 0 \<and>
                         max (inv_up_shares inventory / total) (inv_down_shares inventory / total) > thr))
         then False
         else True)"

definition checkRiskLimits :: "real \<Rightarrow> InventoryState \<Rightarrow> RiskParams option \<Rightarrow> bool" where
  "checkRiskLimits tradesThisSession inventory riskParams =
     (case riskParams of
        None \<Rightarrow> True
      | Some rp \<Rightarrow>
         if (case max_trades_per_session rp of None \<Rightarrow> False | Some m \<Rightarrow> tradesThisSession \<ge> m)
         then False
         else if (let total = inv_up_shares inventory + inv_down_shares inventory
                  in total > 0 \<and>
                     max (inv_up_shares inventory / total) (inv_down_shares inventory / total)
                       > max_imbalance_ratio rp)
         then False
         else if inv_up_shares inventory > max_exposure_up_shares rp then False
         else if inv_down_shares inventory > max_exposure_down_shares rp then False
         else True)"

text \<open>The last price snapshot of a market: \<open>{ up_px, down_px, timestamp }\<close>.\<close>

record LastPrice =
  lp_up_px :: real
  lp_down_px :: real
  lp_timestamp :: real

definition checkDataQuality :: "TapeState \<Rightarrow> LastPrice option \<Rightarrow> QualityFilterParams option \<Rightarrow> bool" where
  "checkDataQuality state lastPriceState qualityFilterParams =
     (case qualityFilterParams of
        None \<Rightarrow> True
      | Some qf \<Rightarrow>
         if \<bar>(up_px state + down_px state) - 1\<bar> > max_price_sum_deviation qf then False
         else (case lastPriceState of
                 None \<Rightarrow> True
               | Some lp \<Rightarrow>
                  if (timestamp state - lp_timestamp lp) / 1000 > timestamp_jump_threshold_seconds qf
                  then False
                  else if max \<bar>up_px state - lp_up_px lp\<bar> \<bar>down_px state - lp_down_px lp\<bar>
                            > price_gap_threshold qf
                  then False
                  else True))"

definition shouldResetInventory :: "real option \<Rightarrow> real \<Rightarrow> ResetParams option \<Rightarrow> bool" where
  "shouldResetInventory lastActivityTs currentTs resetParams =
     (case resetParams of
        None \<Rightarrow> False
      | Some rp \<Rightarrow>
         (case lastActivityTs of
            None \<Rightarrow> resets_on_market_switch rp
          | Some l \<Rightarrow>
             resets_on_inactivity rp \<and>
             (currentTs - l) / (1000 * 60 * 60) > inactivity_threshold_hours rp))"

section \<open>The policy integrator (PolicyIntegrator in marketTracker.ts)\<close>

text \<open>
  The private state of the integrator: the maps of \<open>policyState\<close>, its decision counter,
  and the two maps kept beside it. A \<open>Map\<close> of the source is a partial function.
\<close>

record PolicyIntegrator =
  priceHistory :: "string \<rightharpoonup> PriceHistory list"
  inventory :: "string \<rightharpoonup> InventoryState"
  lastTradeTime :: "string \<rightharpoonup> real"
  recentTradeTimes :: "string \<rightharpoonup> real list"
  decisionIdCounter :: nat
  tradesPerSession :: "string \<rightharpoonup> real"
  lastPriceState :: "string \<rightharpoonup> LastPrice"

record Decision =
  d_shouldTrade :: bool
  d_side :: "side option"
  shares :: real
  d_reason :: string
  decisionId :: nat
  fillPrice :: "real option"

definition maxHistoryLength :: nat where
  "maxHistoryLength = 1000"

definition updatePriceHistory :: "PolicyIntegrator \<Rightarrow> string \<Rightarrow> real \<Rightarrow> real \<Rightarrow> real \<Rightarrow> PolicyIntegrator" where
  "updatePriceHistory s mkt now upPx downPx =
     (let pushed = (case priceHistory s mkt of None \<Rightarrow> [] | Some h \<Rightarrow> h) @
                   [\<lparr> h_timestamp = now, h_up_px = upPx, h_down_px = downPx \<rparr>];
          trimmed = (if length pushed > maxHistoryLength then tl pushed else pushed)
      in s\<lparr> priceHistory := (priceHistory s)(mkt \<mapsto> trimmed) \<rparr>)"

text \<open>\<open>getInventory\<close> stores an empty inventory for a market it has not seen.\<close>

definition getInventory :: "PolicyIntegrator \<Rightarrow> string \<Rightarrow> InventoryState \<times> PolicyIntegrator" where
  "getInventory s mkt =
     (case inventory s mkt of
        Some i \<Rightarrow> (i, s)
      | None \<Rightarrow>
         (let i = \<lparr> inv_up_shares = 0, inv_down_shares = 0, avg_cost_up = None, avg_cost_down = None \<rparr>
          in (i, s\<lparr> inventory := (inventory s)(mkt \<mapsto> i) \<rparr>)))"

text \<open>\<open>map.get(market) || null\<close> on a map of numbers: a stored 0 reads as \<open>null\<close>.\<close>

definition getOrNull :: "real option \<Rightarrow> real option" where
  "getOrNull x = (case x of None \<Rightarrow> None | Some v \<Rightarrow> if v = 0 then None else Some v)"

definition noTrade :: "string \<Rightarrow> nat \<Rightarrow> Decision" where
  "noTrade r did =
     \<lparr> d_shouldTrade = False, d_side = None, shares = 0, d_reason = r, decisionId = did,
       fillPrice = None \<rparr>"

text \<open>
  The part of \<open>shouldTrade\<close> that follows the snapshot update is written as functions of
  the values the method has read from its state by then, in three steps.

  Side selection: the bands are tested directly (\<open>actualUpSignal\<close>, \<open>actualDownSignal\<close>),
  and the side of \<open>entrySignal\<close> is the fallback when neither band holds.
\<close>

definition selectedSideOf ::
  "TapeState \<Rightarrow> Features \<Rightarrow> InventoryState \<Rightarrow> MarketParams \<Rightarrow> EntrySignal \<Rightarrow> side option" where
  "selectedSideOf state features invt marketParams sig =
     (let actualUpSignal =
            (case entry_params marketParams of
               None \<Rightarrow> False
             | Some ep \<Rightarrow> inBand (up_price_min ep) (up_price_max ep) (up_px state));
          actualDownSignal =
            (case entry_params marketParams of
               None \<Rightarrow> False
             | Some ep \<Rightarrow> inBand (down_price_min ep) (down_price_max ep) (down_px state))
      in if actualUpSignal \<and> actualDownSignal \<and> side_selection_params marketParams \<noteq> None
         then selectSideWhenBothValid state features invt (side_selection_params marketParams)
                actualUpSignal actualDownSignal
         else if actualUpSignal then Some UP
         else if actualDownSignal then Some DOWN
         else side sig)"

text \<open>The gates before the size lookup: cooldown, cadence, entry signal and side, risk.
  \<open>Inl\<close> is the no-trade decision of the gate that blocks, \<open>Inr\<close> the selected side with the
  entry signal.\<close>

definition gatesBeforeSizing ::
  "TapeState \<Rightarrow> Features \<Rightarrow> real option \<Rightarrow> InventoryState \<Rightarrow> real list \<Rightarrow> real \<Rightarrow> MarketParams \<Rightarrow> nat
     \<Rightarrow> Decision + side \<times> EntrySignal" where
  "gatesBeforeSizing state features lastTradeTs invt recentTrades tradesThisSession marketParams did =
     (if cooldown_params marketParams \<noteq> None \<and>
         \<not> checkCooldown lastTradeTs (timestamp state) features invt (cooldown_params marketParams)
      then Inl (noTrade ''cooldown_blocked'' did)
      else if \<not> cadenceOk lastTradeTs recentTrades (cadence_params marketParams) (timestamp state)
      then Inl (noTrade ''cadence_blocked'' did)
      else
       (let sig = entrySignal state features (entry_params marketParams)
        in case selectedSideOf state features invt marketParams sig of
             None \<Rightarrow> Inl (noTrade (if reason sig = [] then ''no_entry_signal'' else reason sig) did)
           | Some sel \<Rightarrow>
               if \<not> should_trade sig
               then Inl (noTrade (if reason sig = [] then ''no_entry_signal'' else reason sig) did)
               else if risk_params marketParams \<noteq> None \<and>
                       \<not> checkRiskLimits tradesThisSession invt (risk_params marketParams)
               then Inl (noTrade ''risk_limit_exceeded'' did)
               else Inr (sel, sig)))"

text \<open>The size lookup, the inventory gate and the fill price. The size lookup is called
  with four arguments, so its inventory is \<open>undefined\<close>.\<close>

definition sizeAndExecute ::
  "TapeState \<Rightarrow> Features \<Rightarrow> InventoryState \<Rightarrow> MarketParams \<Rightarrow> nat \<Rightarrow> side \<Rightarrow> EntrySignal
     \<Rightarrow> error + Decision" where
  "sizeAndExecute state features invt marketParams did selectedSide sig =
     (case sizeForTrade state features (size_params marketParams) selectedSide None of
        Inl e \<Rightarrow> Inl e
      | Inr sz \<Rightarrow>
         (case inventoryOkAndRebalance invt (inventory_params marketParams) selectedSide of
            None \<Rightarrow> Inr (noTrade ''inventory_limit_exceeded'' did)
          | Some finalSide \<Rightarrow>
             (let snapshotSidePx = (if finalSide = UP then up_px state else down_px state);
                  fill = simulateFillPrice finalSide snapshotSidePx (execution_params marketParams)
              in Inr \<lparr> d_shouldTrade = True, d_side = Some finalSide, shares = sz,
                       d_reason = reason sig, decisionId = did, fillPrice = Some fill \<rparr>)))"

definition decideGates ::
  "TapeState \<Rightarrow> Features \<Rightarrow> real option \<Rightarrow> InventoryState \<Rightarrow> real list \<Rightarrow> real \<Rightarrow> MarketParams \<Rightarrow> nat
     \<Rightarrow> error + Decision" where
  "decideGates state features lastTradeTs invt recentTrades tradesThisSession marketParams did =
     (case gatesBeforeSizing state features lastTradeTs invt recentTrades tradesThisSession marketParams did of
        Inl blocked \<Rightarrow> Inr blocked
      | Inr (selectedSide, sig) \<Rightarrow> sizeAndExecute state features invt marketParams did selectedSide sig)"

text \<open>
  \<open>shouldTrade\<close> after the last price snapshot has been stored: the reads from the state
  (\<open>getInventory\<close> is the only one that writes), then the three steps above.
\<close>

definition decideAfterSnapshot ::
  "PolicyIntegrator \<Rightarrow> string \<Rightarrow> real \<Rightarrow> real \<Rightarrow> real \<Rightarrow> MarketParams \<Rightarrow> nat \<Rightarrow> (error + Decision) \<times> PolicyIntegrator" where
  "decideAfterSnapshot s4 mkt now upPx downPx marketParams did =
     (let state = \<lparr> timestamp = now, up_px = upPx, down_px = downPx, market = mkt \<rparr>;
          history = (case priceHistory s4 mkt of None \<Rightarrow> [] | Some h \<Rightarrow> h);
          features = computeFeatures state history;
          lastTradeTs = getOrNull (lastTradeTime s4 mkt);
          invt = fst (getInventory s4 mkt);
          s5 = snd (getInventory s4 mkt);
          recentTrades = (case recentTradeTimes s5 mkt of None \<Rightarrow> [] | Some r \<Rightarrow> r);
          tradesThisSession = orZero (tradesPerSession s5 mkt)
      in (decideGates state features lastTradeTs invt recentTrades tradesThisSession marketParams did, s5))"

text \<open>The first block of \<open>shouldTrade\<close>: on a reset condition the market's inventory and
  session counter are deleted.\<close>

definition resetIfNeeded :: "PolicyIntegrator \<Rightarrow> string \<Rightarrow> real \<Rightarrow> MarketParams \<Rightarrow> PolicyIntegrator" where
  "resetIfNeeded s mkt now marketParams =
     (let lastActivityTs = getOrNull (lastTradeTime s mkt)
      in if reset_params marketParams \<noteq> None \<and>
            shouldResetInventory lastActivityTs now (reset_params marketParams)
         then s\<lparr> inventory := (inventory s)(mkt := None),
                 tradesPerSession := (tradesPerSession s)(mkt := None) \<rparr>
         else s)"

text \<open>
  \<open>shouldTrade\<close>: the counter, the reset, the history, the quality filter and the snapshot,
  then the rest of the pipeline. The result is the returned decision or the exception
  thrown, with the state the call leaves behind.
\<close>

definition shouldTrade ::
  "PolicyIntegrator \<Rightarrow> string \<Rightarrow> real \<Rightarrow> real \<Rightarrow> real \<Rightarrow> MarketParams \<Rightarrow> (error + Decision) \<times> PolicyIntegrator" where
  "shouldTrade s0 mkt now upPx downPx marketParams =
     (let did = decisionIdCounter s0 + 1;
          s1 = s0\<lparr> decisionIdCounter := did \<rparr>;
          s2 = resetIfNeeded s1 mkt now marketParams;
          s3 = updatePriceHistory s2 mkt now upPx downPx;
          lastPrice = lastPriceState s3 mkt
      in if quality_filter_params marketParams \<noteq> None \<and>
            \<not> checkDataQuality \<lparr> timestamp = now, up_px = upPx, down_px = downPx, market = mkt \<rparr>
                 lastPrice (quality_filter_params marketParams)
         then (Inr (noTrade ''data_quality_filter_failed'' did), s3)
         else decideAfterSnapshot
                (s3\<lparr> lastPriceState := (lastPriceState s3)
                        (mkt \<mapsto> \<lparr> lp_up_px = upPx, lp_down_px = downPx, lp_timestamp = now \<rparr>) \<rparr>)
                mkt now upPx downPx marketParams did)"

section \<open>The parameter loader (paramLoader.ts)\<close>

subsection \<open>Market keys (ParameterLoader.normalizeMarketKey)\<close>

text \<open>\<open>String.prototype.includes\<close>: the needle occurs as a contiguous substring.\<close>

fun strIncludes :: "string \<Rightarrow> string \<Rightarrow> bool" where
  "strIncludes [] needle = (needle = [])"
| "strIncludes (c # cs) needle = (prefix needle (c # cs) \<or> strIncludes cs needle)"

definition normalizeMarketKey :: "string \<Rightarrow> string" where
  "normalizeMarketKey marketKey =
     (if strIncludes marketKey ''BTC'' \<and> strIncludes marketKey ''15'' then ''BTC_15m''
      else if strIncludes marketKey ''ETH'' \<and> strIncludes marketKey ''15'' then ''ETH_15m''
      else if strIncludes marketKey ''BTC'' \<and> (strIncludes marketKey ''1h'' \<or> strIncludes marketKey ''1 hour'')
      then ''BTC_1h''
      else if strIncludes marketKey ''ETH'' \<and> (strIncludes marketKey ''1h'' \<or> strIncludes marketKey ''1 hour'')
      then ''ETH_1h''
      else marketKey)"

subsection \<open>Loading and hot reload (loadParams, getParams, startHotReload)\<close>

text \<open>
  A section of the param-type-first layout is an object that holds a \<open>per_market\<close> record,
  or a value with no usable \<open>per_market\<close> (an object without that property, or a truthy
  primitive), on which \<open>section.per_market[key]\<close> throws.
\<close>

datatype 'a paramSection = NoPerMarket | PerMarket "string \<rightharpoonup> 'a"

text \<open>The parameter document the loader keeps. \<open>None\<close> is a section that is missing or
  falsy.\<close>

record ParameterFile =
  pf_entry_params :: "EntryParams paramSection option"
  pf_size_params :: "SizeParams paramSection option"
  pf_inventory_params :: "InventoryParams paramSection option"
  pf_cadence_params :: "CadenceParams paramSection option"

text \<open>
  The parsed JSON object: what stands under the four section keys (\<open>Undefined\<close>: the key is
  absent; \<open>Null\<close>: \<open>null\<close> or another falsy value), and the other top-level keys in order.
  The value of such a key is \<open>null\<close> (\<open>None\<close>) or a value whose properties can be read, with
  the four sections it holds; \<open>None\<close> in such a block is a property that is missing or falsy.
\<close>

record ParsedDocument =
  doc_entry_params :: "EntryParams paramSection field"
  doc_size_params :: "SizeParams paramSection field"
  doc_inventory_params :: "InventoryParams paramSection field"
  doc_cadence_params :: "CadenceParams paramSection field"
  doc_other_keys :: "(string \<times> MarketParams option) list"

text \<open>What \<open>readFileSync\<close> and \<open>JSON.parse\<close> give: a content on which \<open>JSON.parse\<close> or the
  \<open>in\<close> test of \<open>isNewFormat\<close> throws (text that is not JSON, or JSON that is not an
  object), or the parsed object.\<close>

datatype FileContent = Malformed | Document ParsedDocument

text \<open>The file behind \<open>paramsPath\<close>: absent, or its content with the modification time
  \<open>mtimeMs\<close>.\<close>

type_synonym ParamsFileOnDisk = "(FileContent \<times> real) option"

record ParameterLoader =
  params :: "ParameterFile option"
  lastModified :: real

definition marketKeys :: "string list" where
  "marketKeys = [''BTC_15m'', ''ETH_15m'', ''BTC_1h'', ''ETH_1h'']"

definition isNewFormat :: "ParsedDocument \<Rightarrow> bool" where
  "isNewFormat parsed =
     (let hasMarketKey = list_ex (\<lambda>key. key \<in> set (map fst (doc_other_keys parsed))) marketKeys;
          hasOldFormatKey = (doc_entry_params parsed \<noteq> Undefined \<or> doc_size_params parsed \<noteq> Undefined)
      in hasMarketKey \<and> \<not> hasOldFormatKey)"

definition getDefaultParams :: ParameterFile where
  "getDefaultParams =
     \<lparr> pf_entry_params = Some (PerMarket Map.empty), pf_size_params = Some (PerMarket Map.empty),
       pf_inventory_params = Some (PerMarket Map.empty), pf_cadence_params = Some (PerMarket Map.empty) \<rparr>"

text \<open>\<open>if (marketParams.x) oldFormat.x!.per_market[marketKey] = marketParams.x\<close>; the sections
  of \<open>oldFormat\<close> all hold a \<open>per_market\<close> record.\<close>

definition putMarket :: "string \<Rightarrow> 'a paramSection option \<Rightarrow> 'a option \<Rightarrow> 'a paramSection option" where
  "putMarket marketKey sec v =
     (case v of
        None \<Rightarrow> sec
      | Some x \<Rightarrow> (case sec of Some (PerMarket m) \<Rightarrow> Some (PerMarket (m(marketKey \<mapsto> x))) | _ \<Rightarrow> sec))"

text \<open>The \<open>for ... in\<close> loop of \<open>convertNewToOldFormat\<close>: a key that is not a market key is
  skipped; reading \<open>marketParams.entry_params\<close> of a \<open>null\<close> market block throws.\<close>

fun convertMarkets :: "ParameterFile \<Rightarrow> (string \<times> MarketParams option) list \<Rightarrow> error + ParameterFile" where
  "convertMarkets oldFormat [] = Inr oldFormat"
| "convertMarkets oldFormat ((marketKey, marketParams) # rest) =
     (if marketKey \<notin> set marketKeys then convertMarkets oldFormat rest
      else (case marketParams of
              None \<Rightarrow> Inl TypeError
            | Some mp \<Rightarrow>
               convertMarkets
                 (oldFormat
                    \<lparr> pf_entry_params := putMarket marketKey (pf_entry_params oldFormat) (entry_params mp),
                      pf_size_params := putMarket marketKey (pf_size_params oldFormat) (size_params mp),
                      pf_inventory_params :=
                        putMarket marketKey (pf_inventory_params oldFormat) (inventory_params mp),
                      pf_cadence_params :=
                        putMarket marketKey (pf_cadence_params oldFormat) (cadence_params mp) \<rparr>)
                 rest))"

definition convertNewToOldFormat :: "ParsedDocument \<Rightarrow> error + ParameterFile" where
  "convertNewToOldFormat newFormat = convertMarkets getDefaultParams (doc_other_keys newFormat)"

text \<open>The old layout is taken as parsed: a section is what stands under its key. A falsy
  section is replaced by \<open>validateParams\<close> right after, so it is read as missing.\<close>

definition definedOnly :: "'a field \<Rightarrow> 'a option" where
  "definedOnly v = (case v of Defined x \<Rightarrow> Some x | _ \<Rightarrow> None)"

definition readOldFormat :: "ParsedDocument \<Rightarrow> ParameterFile" where
  "readOldFormat parsed =
     \<lparr> pf_entry_params = definedOnly (doc_entry_params parsed),
       pf_size_params = definedOnly (doc_size_params parsed),
       pf_inventory_params = definedOnly (doc_inventory_params parsed),
       pf_cadence_params = definedOnly (doc_cadence_params parsed) \<rparr>"

text \<open>\<open>if (!params.x) params.x = { per_market: {} }\<close>: a section that is there is kept as it
  is, with or without \<open>per_market\<close>.\<close>

definition orEmptySection :: "'a paramSection option \<Rightarrow> 'a paramSection option" where
  "orEmptySection sec = (case sec of None \<Rightarrow> Some (PerMarket Map.empty) | Some x \<Rightarrow> Some x)"

definition validateParams :: "ParameterFile \<Rightarrow> ParameterFile" where
  "validateParams p =
     \<lparr> pf_entry_params = orEmptySection (pf_entry_params p),
       pf_size_params = orEmptySection (pf_size_params p),
       pf_inventory_params = orEmptySection (pf_inventory_params p),
       pf_cadence_params = orEmptySection (pf_cadence_params p) \<rparr>"

text \<open>\<open>loadParams\<close>: the returned document and the loader afterwards. A missing file and an
  exception caught by the \<open>try\<close> both return the defaults and leave the loader's fields
  alone.\<close>

definition loadParams :: "ParameterLoader \<Rightarrow> ParamsFileOnDisk \<Rightarrow> ParameterFile \<times> ParameterLoader" where
  "loadParams loader disk =
     (case disk of
        None \<Rightarrow> (getDefaultParams, loader)
      | Some (Malformed, mtimeMs) \<Rightarrow> (getDefaultParams, loader)
      | Some (Document parsed, mtimeMs) \<Rightarrow>
         (case (if isNewFormat parsed then convertNewToOldFormat parsed else Inr (readOldFormat parsed)) of
            Inl e \<Rightarrow> (getDefaultParams, loader)
          | Inr converted \<Rightarrow>
             (let normalized = validateParams converted
              in (normalized, loader\<lparr> lastModified := mtimeMs, params := Some normalized \<rparr>))))"

definition getParams :: "ParameterLoader \<Rightarrow> ParamsFileOnDisk \<Rightarrow> ParameterFile \<times> ParameterLoader" where
  "getParams loader disk =
     (case params loader of
        Some p \<Rightarrow> (p, loader)
      | None \<Rightarrow>
         (let loaded = loadParams loader disk
          in (fst loaded, (snd loaded)\<lparr> params := Some (fst loaded) \<rparr>)))"

text \<open>\<open>params.x?.per_market[normalizedKey]\<close>: a missing section gives \<open>undefined\<close>, a section
  without \<open>per_market\<close> throws.\<close>

definition sectionAt :: "'a paramSection option \<Rightarrow> string \<Rightarrow> error + 'a option" where
  "sectionAt sec key =
     (case sec of
        None \<Rightarrow> Inr None
      | Some NoPerMarket \<Rightarrow> Inl TypeError
      | Some (PerMarket m) \<Rightarrow> Inr (m key))"

definition getMarketParams ::
  "ParameterLoader \<Rightarrow> ParamsFileOnDisk \<Rightarrow> string \<Rightarrow> (error + MarketParams) \<times> ParameterLoader" where
  "getMarketParams loader disk marketKey =
     (let got = getParams loader disk;
          p = fst got;
          normalizedKey = normalizeMarketKey marketKey
      in (case sectionAt (pf_entry_params p) normalizedKey of
            Inl e \<Rightarrow> Inl e
          | Inr ep \<Rightarrow>
             (case sectionAt (pf_size_params p) normalizedKey of
                Inl e \<Rightarrow> Inl e
              | Inr sp \<Rightarrow>
                 (case sectionAt (pf_inventory_params p) normalizedKey of
                    Inl e \<Rightarrow> Inl e
                  | Inr ip \<Rightarrow>
                     (case sectionAt (pf_cadence_params p) normalizedKey of
                        Inl e \<Rightarrow> Inl e
                      | Inr cp \<Rightarrow>
                         Inr \<lparr> entry_params = ep, size_params = sp, inventory_params = ip,
                               cadence_params = cp, side_selection_params = None,
                               execution_params = None, cooldown_params = None, risk_params = None,
                               quality_filter_params = None, reset_params = None \<rparr>))),
          snd got))"

text \<open>The first load of \<open>startHotReload\<close>, and one run of its interval callback. The
  listeners run inside their own \<open>try\<close> and do not reach the loader's fields.\<close>

definition startHotReload :: "ParameterLoader \<Rightarrow> ParamsFileOnDisk \<Rightarrow> ParameterLoader" where
  "startHotReload loader disk =
     (let loaded = loadParams loader disk in (snd loaded)\<lparr> params := Some (fst loaded) \<rparr>)"

definition pollTick :: "ParameterLoader \<Rightarrow> ParamsFileOnDisk \<Rightarrow> ParameterLoader" where
  "pollTick loader disk =
     (case disk of
        None \<Rightarrow> loader
      | Some (content, mtimeMs) \<Rightarrow>
         if mtimeMs > lastModified loader
         then (let loaded = loadParams loader disk in (snd loaded)\<lparr> params := Some (fst loaded) \<rparr>)
         else loader)"

section \<open>An auxiliary relation for the proofs about the price history\<close>

text \<open>\<open>dupAt c l2 l1\<close>: the list \<open>l2\<close> is \<open>l1\<close> with one occurrence of \<open>c\<close> repeated in place.\<close>

inductive dupAt :: "'a \<Rightarrow> 'a list \<Rightarrow> 'a list \<Rightarrow> bool" where
  dup_here: "dupAt c (c # c # q) (c # q)"
| dup_later: "dupAt c l2 l1 \<Longrightarrow> dupAt c (p # l2) (p # l1)"

section \<open>Example values used by the witnesses\<close>

definition exEntry :: EntryParams where
  "exEntry = \<lparr> up_price_min = Some 0.4, up_price_max = Some 0.6,
                   down_price_min = None, down_price_max = None,
                   momentum_window_s = 5, momentum_threshold = 0.01, mode = ''none'' \<rparr>"

definition exEntryDown :: EntryParams where
  "exEntryDown = \<lparr> up_price_min = None, up_price_max = None,
                       down_price_min = Some 0.4, down_price_max = Some 0.6,
                       momentum_window_s = 5, momentum_threshold = 0.01, mode = ''none'' \<rparr>"

definition emptyIntegrator :: PolicyIntegrator where
  "emptyIntegrator =
     \<lparr> priceHistory = Map.empty, inventory = Map.empty, lastTradeTime = Map.empty,
       recentTradeTimes = Map.empty, decisionIdCounter = 0, tradesPerSession = Map.empty,
       lastPriceState = Map.empty \<rparr>"

definition noParams :: MarketParams where
  "noParams =
     \<lparr> entry_params = None, size_params = None, inventory_params = None, cadence_params = None,
       side_selection_params = None, execution_params = None, cooldown_params = None,
       risk_params = None, quality_filter_params = None, reset_params = None \<rparr>"

definition exQuality :: QualityFilterParams where
  "exQuality = \<lparr> max_price_sum_deviation = 0.05, timestamp_jump_threshold_seconds = 60,
                  price_gap_threshold = 0.2 \<rparr>"

text \<open>Scenario 2 of the specification (inventory conditioning), with the bins of scenario 1.\<close>

definition scnState :: TapeState where
  "scnState = \<lparr> timestamp = 1000, up_px = 0.3, down_px = 0.7, market = ''BTC_15m'' \<rparr>"

definition scnSizeParams :: SizeParams where
  "scnSizeParams =
     \<lparr> bin_edges = Some [0, 0.2, 0.4, 0.6, 0.8, 1.0],
       size_table = Some [(''(0, 0.5]|bucket_0'', 5), (''(0, 0.5]|bucket_1'', 15),
                          (''(0.5, 1]|bucket_0'', 10), (''(0.5, 1]|bucket_1'', 20)],
       size_table_1d = None,
       conditioning_var = Some ''inventory_imbalance_ratio'',
       inventory_bucket_thresholds = Some [0, 1, 2],
       inventory_buckets = Some [''bucket_0'', ''bucket_1''] \<rparr>"

definition invLow :: InventoryState where
  "invLow = \<lparr> inv_up_shares = 50, inv_down_shares = 100, avg_cost_up = None, avg_cost_down = None \<rparr>"

definition invHigh :: InventoryState where
  "invHigh = \<lparr> inv_up_shares = 100, inv_down_shares = 50, avg_cost_up = None, avg_cost_down = None \<rparr>"

text \<open>Market parameters of a paper market without size parameters, and the same with the
  size parameters of scenario 2.\<close>

definition paperParams :: MarketParams where
  "paperParams = noParams\<lparr> entry_params := Some exEntry, quality_filter_params := Some exQuality \<rparr>"

definition tradeParams :: MarketParams where
  "tradeParams = paperParams\<lparr> size_params := Some scnSizeParams \<rparr>"

text \<open>A tape state and features with given 5 s deltas, for the entry signal.\<close>

definition exFeatures :: "real \<Rightarrow> real \<Rightarrow> Features" where
  "exFeatures dUp dDown =
     (initFeatures \<lparr> timestamp = 1000, up_px = 0.5, down_px = 0.5, market = ''BTC_15m'' \<rparr>)
       \<lparr> delta_5s_side_px := Some dUp, delta_5s_down_px := Some dDown \<rparr>"

definition exTape :: "real \<Rightarrow> real \<Rightarrow> TapeState" where
  "exTape u d = \<lparr> timestamp = 1000, up_px = u, down_px = d, market = ''BTC_15m'' \<rparr>"

text \<open>A loader that holds a snapshot with entry parameters for one market, and two
  documents that do not load as intended: a market-first document whose market block is
  \<open>null\<close>, and a document whose \<open>entry_params\<close> section has no \<open>per_market\<close>.\<close>

definition exSnapshot :: ParameterFile where
  "exSnapshot = getDefaultParams\<lparr> pf_entry_params := Some (PerMarket [''BTC_15m'' \<mapsto> exEntry]) \<rparr>"

definition exLoader :: ParameterLoader where
  "exLoader = \<lparr> params = Some exSnapshot, lastModified = 100 \<rparr>"

definition exNullMarket :: ParsedDocument where
  "exNullMarket =
     \<lparr> doc_entry_params = Undefined, doc_size_params = Undefined, doc_inventory_params = Undefined,
       doc_cadence_params = Undefined, doc_other_keys = [(''BTC_15m'', None)] \<rparr>"

definition exNoPerMarket :: ParsedDocument where
  "exNoPerMarket =
     \<lparr> doc_entry_params = Defined NoPerMarket, doc_size_params = Undefined,
       doc_inventory_params = Undefined, doc_cadence_params = Undefined, doc_other_keys = [] \<rparr>"

text \<open>An integrator whose last accepted tick of the market is 61 s old or older.\<close>

definition staleIntegrator :: PolicyIntegrator where
  "staleIntegrator =
     emptyIntegrator\<lparr> lastPriceState := [''BTC_15m'' \<mapsto> \<lparr> lp_up_px = 0.5, lp_down_px = 0.5, lp_timestamp = 0 \<rparr>] \<rparr>"

text \<open>An integrator whose price history of the market holds 999 entries: one at the time
  \<open>oldest\<close>, then 998 equal ticks at 20000 ms. Market parameters in momentum mode, and a
  quality filter with a negative jump threshold.\<close>

definition fullHistory :: "real \<Rightarrow> PriceHistory list" where
  "fullHistory oldest =
     \<lparr> h_timestamp = oldest, h_up_px = 0.3, h_down_px = 0.7 \<rparr> #
     replicate 998 \<lparr> h_timestamp = 20000, h_up_px = 0.5, h_down_px = 0.5 \<rparr>"

definition fullIntegrator :: "real \<Rightarrow> PolicyIntegrator" where
  "fullIntegrator oldest = emptyIntegrator\<lparr> priceHistory := [''BTC_15m'' \<mapsto> fullHistory oldest] \<rparr>"

definition momentumParams :: MarketParams where
  "momentumParams = noParams\<lparr> entry_params := Some (exEntry\<lparr> mode := ''momentum'' \<rparr>) \<rparr>"

definition hastyQuality :: QualityFilterParams where
  "hastyQuality = exQuality\<lparr> timestamp_jump_threshold_seconds := - 1 \<rparr>"

section \<open>Theorems\<close>

subsection \<open>Helper facts\<close>

lemma distance_from_50_computeFeatures:
  "distance_from_50 (computeFeatures state history) = \<bar>up_px state - 0.5\<bar>"
  by (simp add: computeFeatures_def initFeatures_def Let_def split: list.split)

text \<open>Evaluation rules for the number printer on numerals.\<close>

lemma natToString_small: "n < 10 \<Longrightarrow> natToString n = [digitChar n]"
  by (simp add: natToString.simps)

lemma natToString_large: "\<not> n < 10 \<Longrightarrow> natToString n = natToString (n div 10) @ [digitChar (n mod 10)]"
  by (subst natToString.simps) simp

lemma fracDigits_numeral:
  "fracDigits (numeral k) r =
     (if r = 0 then []
      else (let d = nat \<lfloor>r * 10\<rfloor> in digitChar d # fracDigits (pred_numeral k) (r * 10 - real d)))"
  by (simp add: numeral_eq_Suc)

lemmas numToString_eval = numToString_def natToString_small natToString_large fracDigits_numeral
  digitChar_def Let_def

subsection \<open>Helper facts about the integrator\<close>

lemma sizeForTrade_undefined_inventory:
  "bin_edges sp = Some es \<Longrightarrow> 2 \<le> length es \<Longrightarrow>
   conditioning_var sp = Some ''inventory_imbalance_ratio'' \<Longrightarrow>
   sizeForTrade st f (Some sp) sd None = Inl TypeError"
  by (simp add: sizeForTrade_def Let_def)

lemma entrySignal_reason_not_inventory [simp]:
  "reason (entrySignal st f ep) \<noteq> ''inventory_limit_exceeded''"
  by (simp add: entrySignal_def entrySignalWith_def modeCheck_def Let_def split: option.split)

lemma entrySignal_reason_not_empty [simp]:
  "reason (entrySignal st f ep) \<noteq> []"
  by (simp add: entrySignal_def entrySignalWith_def modeCheck_def Let_def split: option.split)

lemma selectedSideOf_size_params [simp]:
  "selectedSideOf st f i (mp\<lparr> size_params := x \<rparr>) sig = selectedSideOf st f i mp sig"
  by (simp add: selectedSideOf_def Let_def cong: if_cong option.case_cong)

lemma gatesBeforeSizing_size_params [simp]:
  "gatesBeforeSizing st f l i r t (mp\<lparr> size_params := x \<rparr>) did = gatesBeforeSizing st f l i r t mp did"
  by (simp add: gatesBeforeSizing_def Let_def cong: if_cong option.case_cong)

lemma gatesBeforeSizing_blocked:
  "gatesBeforeSizing st f l i r t mp did = Inl d \<Longrightarrow>
   \<not> d_shouldTrade d \<and> d_reason d \<noteq> ''inventory_limit_exceeded'' \<and> decisionId d = did"
  by (auto simp: gatesBeforeSizing_def noTrade_def Let_def split: if_splits option.splits)

lemma sizeAndExecute_undefined_inventory:
  assumes "size_params mp = Some sp" "bin_edges sp = Some es" "2 \<le> length es"
    "conditioning_var sp = Some ''inventory_imbalance_ratio''"
  shows "sizeAndExecute st f i mp did sel sig = Inl TypeError"
  using assms by (simp add: sizeAndExecute_def sizeForTrade_undefined_inventory)

lemma sizeAndExecute_no_size_params:
  "\<exists>d. sizeAndExecute st f i (mp\<lparr> size_params := None \<rparr>) did sel sig = Inr d \<and>
       (d_shouldTrade d \<or> d_reason d = ''inventory_limit_exceeded'')"
  by (simp add: sizeAndExecute_def sizeForTrade_def noTrade_def Let_def split: option.split)

lemma decideGates_undefined_inventory:
  assumes "size_params mp = Some sp" "bin_edges sp = Some es" "2 \<le> length es"
    "conditioning_var sp = Some ''inventory_imbalance_ratio''"
  shows "(decideGates st f l i r t mp did = Inl TypeError \<longleftrightarrow>
          (\<exists>d. decideGates st f l i r t (mp\<lparr> size_params := None \<rparr>) did = Inr d \<and>
               (d_shouldTrade d \<or> d_reason d = ''inventory_limit_exceeded''))) \<and>
         (decideGates st f l i r t mp did \<noteq> Inl TypeError \<longrightarrow>
          (\<exists>d. decideGates st f l i r t mp did = Inr d \<and> \<not> d_shouldTrade d \<and>
               decideGates st f l i r t (mp\<lparr> size_params := None \<rparr>) did = Inr d))"
proof (cases "gatesBeforeSizing st f l i r t mp did")
  case (Inl d)
  with gatesBeforeSizing_blocked [OF Inl] show ?thesis
    by (simp add: decideGates_def)
next
  case (Inr p)
  obtain sel sig where p: "p = (sel, sig)" by (cases p)
  from sizeAndExecute_no_size_params [of st f i mp did sel sig]
  show ?thesis
    using Inr p sizeAndExecute_undefined_inventory [OF assms, of st f i did sel sig]
    by (simp add: decideGates_def)
qed

lemma noTrade_sel [simp]:
  "d_shouldTrade (noTrade r did) = False" "d_reason (noTrade r did) = r" "decisionId (noTrade r did) = did"
  "d_side (noTrade r did) = None" "shares (noTrade r did) = 0" "fillPrice (noTrade r did) = None"
  by (simp_all add: noTrade_def)

text \<open>The quality gate of a tick, as \<open>shouldTrade\<close> evaluates it.\<close>

lemma resetIfNeeded_frame [simp]:
  "lastPriceState (resetIfNeeded s mkt now mp) = lastPriceState s"
  "decisionIdCounter (resetIfNeeded s mkt now mp) = decisionIdCounter s"
  "priceHistory (resetIfNeeded s mkt now mp) = priceHistory s"
  "lastTradeTime (resetIfNeeded s mkt now mp) = lastTradeTime s"
  "recentTradeTimes (resetIfNeeded s mkt now mp) = recentTradeTimes s"
  by (simp_all add: resetIfNeeded_def Let_def)

lemma resetIfNeeded_size_params [simp]:
  "resetIfNeeded s mkt now (mp\<lparr> size_params := x \<rparr>) = resetIfNeeded s mkt now mp"
  by (simp add: resetIfNeeded_def Let_def)

lemma updatePriceHistory_frame [simp]:
  "lastPriceState (updatePriceHistory s mkt now upPx downPx) = lastPriceState s"
  "decisionIdCounter (updatePriceHistory s mkt now upPx downPx) = decisionIdCounter s"
  "inventory (updatePriceHistory s mkt now upPx downPx) = inventory s"
  "lastTradeTime (updatePriceHistory s mkt now upPx downPx) = lastTradeTime s"
  "recentTradeTimes (updatePriceHistory s mkt now upPx downPx) = recentTradeTimes s"
  "tradesPerSession (updatePriceHistory s mkt now upPx downPx) = tradesPerSession s"
  by (simp_all add: updatePriceHistory_def Let_def)

lemma shouldTrade_rejected:
  assumes "quality_filter_params mp \<noteq> None"
    "\<not> checkDataQuality \<lparr> timestamp = now, up_px = upPx, down_px = downPx, market = mkt \<rparr>
          (lastPriceState s mkt) (quality_filter_params mp)"
  shows "shouldTrade s mkt now upPx downPx mp
         = (Inr (noTrade ''data_quality_filter_failed'' (decisionIdCounter s + 1)),
            updatePriceHistory (resetIfNeeded (s\<lparr> decisionIdCounter := decisionIdCounter s + 1 \<rparr>) mkt now mp)
              mkt now upPx downPx)"
  using assms by (simp add: shouldTrade_def Let_def)

lemma shouldTrade_accepted:
  assumes "\<not> (quality_filter_params mp \<noteq> None \<and>
     \<not> checkDataQuality \<lparr> timestamp = now, up_px = upPx, down_px = downPx, market = mkt \<rparr>
          (lastPriceState s mkt) (quality_filter_params mp))"
  shows "shouldTrade s mkt now upPx downPx mp
         = decideAfterSnapshot
             ((updatePriceHistory (resetIfNeeded (s\<lparr> decisionIdCounter := decisionIdCounter s + 1 \<rparr>) mkt now mp)
                 mkt now upPx downPx)
                \<lparr> lastPriceState := (lastPriceState s)
                     (mkt \<mapsto> \<lparr> lp_up_px = upPx, lp_down_px = downPx, lp_timestamp = now \<rparr>) \<rparr>)
             mkt now upPx downPx mp (decisionIdCounter s + 1)"
  using assms by (auto simp: shouldTrade_def Let_def)

lemma getInventory_frame [simp]:
  "priceHistory (snd (getInventory s m)) = priceHistory s"
  "lastTradeTime (snd (getInventory s m)) = lastTradeTime s"
  "recentTradeTimes (snd (getInventory s m)) = recentTradeTimes s"
  "decisionIdCounter (snd (getInventory s m)) = decisionIdCounter s"
  "tradesPerSession (snd (getInventory s m)) = tradesPerSession s"
  "lastPriceState (snd (getInventory s m)) = lastPriceState s"
  by (simp_all add: getInventory_def Let_def split: option.split)

lemma fst_decideAfterSnapshot:
  "fst (decideAfterSnapshot x mkt now upPx downPx mp did) =
     decideGates \<lparr> timestamp = now, up_px = upPx, down_px = downPx, market = mkt \<rparr>
       (computeFeatures \<lparr> timestamp = now, up_px = upPx, down_px = downPx, market = mkt \<rparr>
          (case priceHistory x mkt of None \<Rightarrow> [] | Some h \<Rightarrow> h))
       (getOrNull (lastTradeTime x mkt)) (fst (getInventory x mkt))
       (case recentTradeTimes x mkt of None \<Rightarrow> [] | Some r \<Rightarrow> r)
       (orZero (tradesPerSession x mkt)) mp did"
  by (simp add: decideAfterSnapshot_def Let_def)

lemma snd_decideAfterSnapshot:
  "snd (decideAfterSnapshot x mkt now upPx downPx mp did) = snd (getInventory x mkt)"
  by (simp add: decideAfterSnapshot_def Let_def)

text \<open>The state the second of two equal calls decides on, against the first.\<close>

lemma second_call_inventory:
  "fst (getInventory
          (updatePriceHistory
             (resetIfNeeded
                ((snd (getInventory
                         (updatePriceHistory (resetIfNeeded s mkt now mp) mkt now upPx downPx
                            \<lparr> lastPriceState := lp \<rparr>) mkt))
                   \<lparr> decisionIdCounter := n \<rparr>) mkt now mp)
             mkt now upPx downPx \<lparr> lastPriceState := lp' \<rparr>) mkt)
   = fst (getInventory
            (updatePriceHistory (resetIfNeeded s mkt now mp) mkt now upPx downPx
               \<lparr> lastPriceState := lp \<rparr>) mkt)"
  by (simp add: getInventory_def resetIfNeeded_def updatePriceHistory_def Let_def split: option.split)

lemma second_call_session:
  "tradesPerSession
          (updatePriceHistory
             (resetIfNeeded
                ((snd (getInventory
                         (updatePriceHistory (resetIfNeeded s mkt now mp) mkt now upPx downPx
                            \<lparr> lastPriceState := lp \<rparr>) mkt))
                   \<lparr> decisionIdCounter := n \<rparr>) mkt now mp)
             mkt now upPx downPx \<lparr> lastPriceState := lp' \<rparr>) mkt
   = tradesPerSession
            (updatePriceHistory (resetIfNeeded s mkt now mp) mkt now upPx downPx
               \<lparr> lastPriceState := lp \<rparr>) mkt"
  by (simp add: getInventory_def resetIfNeeded_def updatePriceHistory_def Let_def split: option.split)

lemma priceHistory_updatePriceHistory:
  "length (case priceHistory s mkt of None \<Rightarrow> [] | Some h \<Rightarrow> h) < maxHistoryLength \<Longrightarrow>
   priceHistory (updatePriceHistory s mkt now upPx downPx) mkt
   = Some ((case priceHistory s mkt of None \<Rightarrow> [] | Some h \<Rightarrow> h) @
           [\<lparr> h_timestamp = now, h_up_px = upPx, h_down_px = downPx \<rparr>])"
  by (simp add: updatePriceHistory_def Let_def)

lemma checkDataQuality_same_tick:
  assumes "checkDataQuality \<lparr> timestamp = now, up_px = upPx, down_px = downPx, market = mkt \<rparr> lp (Some qf)"
    "0 \<le> timestamp_jump_threshold_seconds qf" "0 \<le> price_gap_threshold qf"
  shows "checkDataQuality \<lparr> timestamp = now, up_px = upPx, down_px = downPx, market = mkt \<rparr>
           (Some \<lparr> lp_up_px = upPx, lp_down_px = downPx, lp_timestamp = now \<rparr>) (Some qf)"
  using assms by (simp add: checkDataQuality_def split: if_splits)


text \<open>Repeating the newest history entry does not change the closest entry of any window.\<close>

lemma dupAt_insort:
  "dupAt c l2 l1 \<Longrightarrow> dupAt c (insort_key f x l2) (insort_key f x l1)"
proof (induction rule: dupAt.induct)
  case (dup_here c q)
  then show ?case by (auto intro: dupAt.intros)
next
  case (dup_later c l2 l1 p)
  then show ?case by (auto intro: dupAt.intros)
qed

lemma dupAt_sort_key:
  "dupAt c (sort_key f (h @ [c, c])) (sort_key f (h @ [c]))"
proof (induction h)
  case Nil
  show ?case by (simp add: dupAt.intros)
next
  case (Cons x h)
  then show ?case by (simp add: dupAt_insort)
qed

lemma findClosest_loop_twice:
  "findClosest_loop t (c # c # q) acc = findClosest_loop t (c # q) acc"
  by (cases acc) (simp add: Let_def)

lemma dupAt_findClosest_loop:
  "dupAt c l2 l1 \<Longrightarrow> findClosest_loop t l2 acc = findClosest_loop t l1 acc"
proof (induction arbitrary: acc rule: dupAt.induct)
  case (dup_here c q)
  show ?case by (rule findClosest_loop_twice)
next
  case (dup_later c l2 l1 p)
  then show ?case by (cases acc) (simp add: Let_def)
qed

lemma dupAt_Cons:
  "dupAt c l2 l1 \<Longrightarrow> \<exists>h0 r2 r1. l2 = h0 # r2 \<and> l1 = h0 # r1"
  by (induction rule: dupAt.induct) auto

lemma dupAt_windowDelta:
  assumes "dupAt c (h0 # r2) (h0 # r1)"
  shows "windowDelta st h0 (h0 # r2) secs = windowDelta st h0 (h0 # r1) secs"
proof -
  have "findClosest h0 (h0 # r2) t = findClosest h0 (h0 # r1) t" for t
    unfolding findClosest_def by (simp only: dupAt_findClosest_loop [OF assms])
  then show ?thesis
    by (simp add: windowDelta_def)
qed

lemma computeFeatures_repeat_deltas:
  "delta_5s_side_px (computeFeatures st (h @ [c, c])) = delta_5s_side_px (computeFeatures st (h @ [c])) \<and>
   delta_5s_down_px (computeFeatures st (h @ [c, c])) = delta_5s_down_px (computeFeatures st (h @ [c]))"
proof -
  from dupAt_Cons [OF dupAt_sort_key [of c h_timestamp h]]
  obtain h0 r2 r1 where
    s2: "sort_key h_timestamp (h @ [c, c]) = h0 # r2" and s1: "sort_key h_timestamp (h @ [c]) = h0 # r1"
    by blast
  have d: "dupAt c (h0 # r2) (h0 # r1)"
    using dupAt_sort_key [of c h_timestamp h] by (simp add: s1 s2)
  show ?thesis
    unfolding computeFeatures_def
    by (simp add: s1 s2 Let_def dupAt_windowDelta [OF d])
qed

lemma gatesBeforeSizing_features:
  assumes "delta_5s_side_px f = delta_5s_side_px f'" "delta_5s_down_px f = delta_5s_down_px f'"
  shows "gatesBeforeSizing st f l i r t mp did = gatesBeforeSizing st f' l i r t mp did"
proof -
  have cd: "checkCooldown l (timestamp st) f i cp = checkCooldown l (timestamp st) f' i cp" for cp
    unfolding checkCooldown_def assms ..
  have es: "entrySignal st f ep = entrySignal st f' ep" for ep
    unfolding entrySignal_def entrySignalWith_def assms ..
  have ss: "selectSideWhenBothValid st f i sp a b = selectSideWhenBothValid st f' i sp a b" for sp a b
    unfolding selectSideWhenBothValid_def assms ..
  have sel: "selectedSideOf st f i mp sig = selectedSideOf st f' i mp sig" for sig
    unfolding selectedSideOf_def ss ..
  show ?thesis
    unfolding gatesBeforeSizing_def cd es sel ..
qed

lemma sizeAndExecute_features:
  "sizeAndExecute st f i mp did sel sig = sizeAndExecute st f' i mp did sel sig"
  unfolding sizeAndExecute_def sizeForTrade_def ..

lemma decideGates_features:
  assumes "delta_5s_side_px f = delta_5s_side_px f'" "delta_5s_down_px f = delta_5s_down_px f'"
  shows "decideGates st f l i r t mp did = decideGates st f' l i r t mp did"
  unfolding decideGates_def gatesBeforeSizing_features [OF assms] sizeAndExecute_features [of st f _ _ _ _ _ f'] ..

text \<open>The decision id is only copied into the result.\<close>

lemma gatesBeforeSizing_did:
  "gatesBeforeSizing st f l i r t mp did' =
     map_sum (\<lambda>d. d\<lparr> decisionId := did' \<rparr>) id (gatesBeforeSizing st f l i r t mp did)"
  by (simp add: gatesBeforeSizing_def noTrade_def Let_def split: option.split)

lemma sizeAndExecute_did:
  "sizeAndExecute st f i mp did' sel sig =
     map_sum id (\<lambda>d. d\<lparr> decisionId := did' \<rparr>) (sizeAndExecute st f i mp did sel sig)"
  by (simp add: sizeAndExecute_def noTrade_def Let_def split: option.split sum.split)

lemma decideGates_did:
  "decideGates st f l i r t mp did' =
     map_sum id (\<lambda>d. d\<lparr> decisionId := did' \<rparr>) (decideGates st f l i r t mp did)"
proof (cases "gatesBeforeSizing st f l i r t mp did")
  case (Inl d)
  then show ?thesis
    using gatesBeforeSizing_did [of st f l i r t mp did' did] by (simp add: decideGates_def)
next
  case (Inr p)
  then show ?thesis
    using gatesBeforeSizing_did [of st f l i r t mp did' did]
      sizeAndExecute_did [of st f i mp did' "fst p" "snd p" did]
    by (cases p) (simp add: decideGates_def)
qed

lemma decideGates_id:
  "decideGates st f l i r t mp did = Inr d \<Longrightarrow> decisionId d = did"
  by (auto simp: decideGates_def sizeAndExecute_def noTrade_def Let_def
        dest: gatesBeforeSizing_blocked split: sum.splits option.splits prod.splits)

lemma shouldTrade_counter:
  "decisionIdCounter (snd (shouldTrade s mkt now upPx downPx mp)) = decisionIdCounter s + 1"
  by (cases "quality_filter_params mp \<noteq> None \<and>
      \<not> checkDataQuality \<lparr> timestamp = now, up_px = upPx, down_px = downPx, market = mkt \<rparr>
          (lastPriceState s mkt) (quality_filter_params mp)")
    (simp_all add: shouldTrade_rejected shouldTrade_accepted snd_decideAfterSnapshot)

lemma shouldTrade_id:
  assumes "fst (shouldTrade s mkt now upPx downPx mp) = Inr d"
  shows "decisionId d = decisionIdCounter s + 1"
proof (cases "quality_filter_params mp \<noteq> None \<and>
      \<not> checkDataQuality \<lparr> timestamp = now, up_px = upPx, down_px = downPx, market = mkt \<rparr>
          (lastPriceState s mkt) (quality_filter_params mp)")
  case True
  then show ?thesis using assms by (auto simp: shouldTrade_rejected)
next
  case False
  then show ?thesis
    using assms by (auto simp: shouldTrade_accepted fst_decideAfterSnapshot dest: decideGates_id)
qed

text \<open>The first tick of a market, evaluated.\<close>

lemma computeFeatures_single:
  "computeFeatures \<lparr> timestamp = now, up_px = u, down_px = d, market = m \<rparr>
      [\<lparr> h_timestamp = now, h_up_px = u, h_down_px = d \<rparr>]
   = (initFeatures \<lparr> timestamp = now, up_px = u, down_px = d, market = m \<rparr>)
       \<lparr> delta_1s_side_px := Some 0, delta_5s_side_px := Some 0, delta_30s_side_px := Some 0,
         delta_1s_up_px := Some 0, delta_5s_up_px := Some 0, delta_30s_up_px := Some 0,
         delta_1s_down_px := Some 0, delta_5s_down_px := Some 0, delta_30s_down_px := Some 0 \<rparr>"
  by (simp add: computeFeatures_def Let_def windowDelta_def findClosest_def windowVolatility_def
        initFeatures_def)

lemmas first_tick_eval = shouldTrade_def Let_def decideAfterSnapshot_def resetIfNeeded_def
  emptyIntegrator_def updatePriceHistory_def computeFeatures_single getInventory_def getOrNull_def
  maxHistoryLength_def orZero_def tradeParams_def paperParams_def noParams_def exEntry_def exQuality_def
  checkDataQuality_def decideGates_def gatesBeforeSizing_def selectedSideOf_def sizeAndExecute_def
  cadenceOk_def entrySignal_def entrySignalWith_def IGNORE_ENTRY_BANDS_def modeCheck_def inBand_def
  sizeForTrade_def inventoryOkAndRebalance_def simulateFillPrice_def scnSizeParams_def initFeatures_def

lemma first_tick_paperParams:
  "fst (shouldTrade emptyIntegrator ''BTC_15m'' 1000 0.5 0.5 paperParams)
   = Inr \<lparr> d_shouldTrade = True, d_side = Some UP, shares = 1, d_reason = ''up_price_band'',
           decisionId = 1, fillPrice = Some 0.5 \<rparr>"
  by (simp add: first_tick_eval)

lemma tradeParams_no_size: "tradeParams\<lparr> size_params := None \<rparr> = paperParams"
  by (simp add: tradeParams_def paperParams_def noParams_def)


text \<open>The last price snapshot after a call, and a tick that comes too long after it.\<close>

lemma lastPriceState_shouldTrade:
  "lastPriceState (snd (shouldTrade s mkt now upPx downPx mp))
   = (if quality_filter_params mp \<noteq> None \<and>
         \<not> checkDataQuality \<lparr> timestamp = now, up_px = upPx, down_px = downPx, market = mkt \<rparr>
             (lastPriceState s mkt) (quality_filter_params mp)
      then lastPriceState s
      else (lastPriceState s)(mkt \<mapsto> \<lparr> lp_up_px = upPx, lp_down_px = downPx, lp_timestamp = now \<rparr>))"
  by (simp add: shouldTrade_def Let_def snd_decideAfterSnapshot)

lemma checkDataQuality_jump:
  "timestamp_jump_threshold_seconds qf < (now - lp_timestamp lp) / 1000 \<Longrightarrow>
   \<not> checkDataQuality \<lparr> timestamp = now, up_px = upPx, down_px = downPx, market = mkt \<rparr> (Some lp) (Some qf)"
  by (simp add: checkDataQuality_def)

text \<open>A \<open>null\<close> market block makes the conversion of a market-first document throw.\<close>

lemma convertMarkets_null_block:
  "\<exists>k\<in>set marketKeys. (k, None) \<in> set keys \<Longrightarrow> convertMarkets p keys = Inl TypeError"
proof (induction keys arbitrary: p)
  case Nil
  then show ?case by simp
next
  case (Cons kv keys)
  obtain k v where kv: "kv = (k, v)" by (cases kv)
  show ?case
  proof (cases "k \<in> set marketKeys")
    case False
    with Cons.prems kv have "\<exists>k\<in>set marketKeys. (k, None) \<in> set keys" by auto
    with Cons.IH False kv show ?thesis by simp
  next
    case True
    show ?thesis
    proof (cases v)
      case None
      with True kv show ?thesis by simp
    next
      case (Some mp)
      with Cons.prems kv have "\<exists>k\<in>set marketKeys. (k, None) \<in> set keys" by auto
      with Cons.IH True kv Some show ?thesis by simp
    qed
  qed
qed

text \<open>Taking an entry out of the history does not change the closest entry of a window
  when another entry is strictly closer to the target.\<close>

lemma findClosest_loop_same_end:
  "\<exists>c\<in>set L. \<bar>h_timestamp c - t\<bar> < da \<and> \<bar>h_timestamp c - t\<bar> < db \<Longrightarrow>
   findClosest_loop t L (a, da) = findClosest_loop t L (b, db)"
proof (induction L arbitrary: a da b db)
  case Nil
  then show ?case by simp
next
  case (Cons x L)
  let ?dx = "\<bar>h_timestamp x - t\<bar>"
  from Cons.prems obtain c where c: "c \<in> set (x # L)" "\<bar>h_timestamp c - t\<bar> < da" "\<bar>h_timestamp c - t\<bar> < db"
    by blast
  consider (both) "?dx < da" "?dx < db" | (left) "?dx < da" "\<not> ?dx < db"
    | (right) "\<not> ?dx < da" "?dx < db" | (neither) "\<not> ?dx < da" "\<not> ?dx < db"
    by blast
  then show ?case
  proof cases
    case both
    then show ?thesis by (simp add: Let_def)
  next
    case left
    with c have "c \<in> set L" "\<bar>h_timestamp c - t\<bar> < ?dx" by auto
    with c have "\<exists>c\<in>set L. \<bar>h_timestamp c - t\<bar> < ?dx \<and> \<bar>h_timestamp c - t\<bar> < db" by blast
    from Cons.IH [OF this, of x b] left show ?thesis by (simp add: Let_def)
  next
    case right
    with c have "c \<in> set L" "\<bar>h_timestamp c - t\<bar> < ?dx" by auto
    with c have "\<exists>c\<in>set L. \<bar>h_timestamp c - t\<bar> < da \<and> \<bar>h_timestamp c - t\<bar> < ?dx" by blast
    from Cons.IH [OF this, of a x] right show ?thesis by (simp add: Let_def)
  next
    case neither
    with c have "c \<in> set L" by auto
    with c have "\<exists>c\<in>set L. \<bar>h_timestamp c - t\<bar> < da \<and> \<bar>h_timestamp c - t\<bar> < db" by blast
    from Cons.IH [OF this, of a b] neither show ?thesis by (simp add: Let_def)
  qed
qed

lemma findClosest_loop_insort:
  "da \<le> \<bar>h_timestamp e - t\<bar> \<or> (\<exists>c\<in>set S. \<bar>h_timestamp c - t\<bar> < \<bar>h_timestamp e - t\<bar>) \<Longrightarrow>
   findClosest_loop t (insort_key f e S) (a, da) = findClosest_loop t S (a, da)"
proof (induction S arbitrary: a da)
  case Nil
  then show ?case by (simp add: Let_def)
next
  case (Cons x S)
  show ?case
  proof (cases "f e \<le> f x")
    case True
    show ?thesis
    proof (cases "da \<le> \<bar>h_timestamp e - t\<bar>")
      case True
      with \<open>f e \<le> f x\<close> show ?thesis by (simp add: Let_def)
    next
      case False
      with Cons.prems have "\<exists>c\<in>set (x # S). \<bar>h_timestamp c - t\<bar> < \<bar>h_timestamp e - t\<bar> \<and> \<bar>h_timestamp c - t\<bar> < da"
        by fastforce
      from findClosest_loop_same_end [OF this, of e a] False \<open>f e \<le> f x\<close>
      show ?thesis by (simp add: Let_def)
    qed
  next
    case False
    show ?thesis
    proof (cases "\<bar>h_timestamp x - t\<bar> < da")
      case True
      have "\<bar>h_timestamp x - t\<bar> \<le> \<bar>h_timestamp e - t\<bar> \<or> (\<exists>c\<in>set S. \<bar>h_timestamp c - t\<bar> < \<bar>h_timestamp e - t\<bar>)"
        using Cons.prems True by auto
      from Cons.IH [OF this, of x] True False show ?thesis by (simp add: Let_def)
    next
      case nl: False
      have "da \<le> \<bar>h_timestamp e - t\<bar> \<or> (\<exists>c\<in>set S. \<bar>h_timestamp c - t\<bar> < \<bar>h_timestamp e - t\<bar>)"
        using Cons.prems nl by auto
      from Cons.IH [OF this, of a] nl False show ?thesis by (simp add: Let_def)
    qed
  qed
qed

lemma findClosest_insort:
  assumes "c \<in> set (h0 # rest)" "\<bar>h_timestamp c - t\<bar> < \<bar>h_timestamp e - t\<bar>"
  shows "\<exists>h0' rest'. insort_key f e (h0 # rest) = h0' # rest' \<and>
           findClosest h0' (h0' # rest') t = findClosest h0 (h0 # rest) t"
proof (cases "f e \<le> f h0")
  case True
  have "findClosest_loop t (h0 # rest) (e, \<bar>h_timestamp e - t\<bar>)
        = findClosest_loop t rest (h0, \<bar>h_timestamp h0 - t\<bar>)"
  proof (cases "\<bar>h_timestamp h0 - t\<bar> < \<bar>h_timestamp e - t\<bar>")
    case True
    then show ?thesis by (simp add: Let_def)
  next
    case False
    with assms have "\<exists>c\<in>set rest. \<bar>h_timestamp c - t\<bar> < \<bar>h_timestamp e - t\<bar> \<and> \<bar>h_timestamp c - t\<bar> < \<bar>h_timestamp h0 - t\<bar>"
      by fastforce
    from findClosest_loop_same_end [OF this, of e h0] False show ?thesis by (simp add: Let_def)
  qed
  with True show ?thesis by (simp add: findClosest_def Let_def)
next
  case False
  have "\<bar>h_timestamp h0 - t\<bar> \<le> \<bar>h_timestamp e - t\<bar> \<or> (\<exists>c\<in>set rest. \<bar>h_timestamp c - t\<bar> < \<bar>h_timestamp e - t\<bar>)"
    using assms by auto
  from findClosest_loop_insort [OF this, of f h0] False show ?thesis
    by (simp add: findClosest_def Let_def)
qed

lemma computeFeatures_evict_deltas:
  assumes "c \<in> set Z" "\<bar>h_timestamp c - (timestamp st - 5000)\<bar> < \<bar>h_timestamp e - (timestamp st - 5000)\<bar>"
  shows "delta_5s_side_px (computeFeatures st (e # Z)) = delta_5s_side_px (computeFeatures st Z) \<and>
         delta_5s_down_px (computeFeatures st (e # Z)) = delta_5s_down_px (computeFeatures st Z)"
proof -
  from assms(1) have "sort_key h_timestamp Z \<noteq> []"
    by (metis empty_iff empty_set set_sort)
  then obtain h0 rest where s: "sort_key h_timestamp Z = h0 # rest"
    by (cases "sort_key h_timestamp Z") auto
  have cin: "c \<in> set (h0 # rest)"
    using assms(1) s by (metis set_sort)
  from findClosest_insort [OF cin assms(2), of h_timestamp]
  obtain h0' rest' where i: "insort_key h_timestamp e (h0 # rest) = h0' # rest'"
    and fc: "findClosest h0' (h0' # rest') (timestamp st - 5000) = findClosest h0 (h0 # rest) (timestamp st - 5000)"
    by blast
  have s': "sort_key h_timestamp (e # Z) = h0' # rest'"
    using s i by simp
  have zne: "Z \<noteq> []" using assms(1) by auto
  show ?thesis
    unfolding computeFeatures_def
    by (simp add: s i zne Let_def windowDelta_def fc del: insort_key.simps)
qed


lemma priceHistory_updatePriceHistory_trim:
  "priceHistory (updatePriceHistory s mkt now upPx downPx) mkt
   = Some (if length ((case priceHistory s mkt of None \<Rightarrow> [] | Some h \<Rightarrow> h) @
                      [\<lparr> h_timestamp = now, h_up_px = upPx, h_down_px = downPx \<rparr>]) > maxHistoryLength
           then tl ((case priceHistory s mkt of None \<Rightarrow> [] | Some h \<Rightarrow> h) @
                      [\<lparr> h_timestamp = now, h_up_px = upPx, h_down_px = downPx \<rparr>])
           else (case priceHistory s mkt of None \<Rightarrow> [] | Some h \<Rightarrow> h) @
                      [\<lparr> h_timestamp = now, h_up_px = upPx, h_down_px = downPx \<rparr>])"
  by (simp add: updatePriceHistory_def Let_def)

lemma trimmed_history_ends_with_tick:
  "\<exists>W. (if length (h @ [c]) > maxHistoryLength then tl (h @ [c]) else h @ [c]) = W @ [c]"
  by (cases h) (auto simp: maxHistoryLength_def)

lemma computeFeatures_second_push:
  assumes "\<forall>e rest. W @ [c] = e # rest \<and> maxHistoryLength \<le> length (e # rest) \<longrightarrow>
             (\<exists>x\<in>set rest. \<bar>h_timestamp x - (timestamp st - 5000)\<bar> < \<bar>h_timestamp e - (timestamp st - 5000)\<bar>)"
  shows "delta_5s_side_px (computeFeatures st
            (if length ((W @ [c]) @ [c]) > maxHistoryLength then tl ((W @ [c]) @ [c]) else (W @ [c]) @ [c]))
          = delta_5s_side_px (computeFeatures st (W @ [c])) \<and>
         delta_5s_down_px (computeFeatures st
            (if length ((W @ [c]) @ [c]) > maxHistoryLength then tl ((W @ [c]) @ [c]) else (W @ [c]) @ [c]))
          = delta_5s_down_px (computeFeatures st (W @ [c]))"
proof (cases "length ((W @ [c]) @ [c]) > maxHistoryLength")
  case False
  then show ?thesis
    using computeFeatures_repeat_deltas [of st W c] by simp
next
  case True
  then have "W \<noteq> []" by (auto simp: maxHistoryLength_def)
  then obtain e Y where W: "W = e # Y" by (cases W) auto
  from True have full: "maxHistoryLength \<le> length (e # (Y @ [c]))" by (simp add: W)
  from assms [rule_format, of e "Y @ [c]"] W full
  obtain x where x: "x \<in> set (Y @ [c])"
    "\<bar>h_timestamp x - (timestamp st - 5000)\<bar> < \<bar>h_timestamp e - (timestamp st - 5000)\<bar>"
    by auto
  have ev: "delta_5s_side_px (computeFeatures st (e # (Y @ [c]))) = delta_5s_side_px (computeFeatures st (Y @ [c])) \<and>
        delta_5s_down_px (computeFeatures st (e # (Y @ [c]))) = delta_5s_down_px (computeFeatures st (Y @ [c]))"
    using x by (rule computeFeatures_evict_deltas)
  have "(if length ((W @ [c]) @ [c]) > maxHistoryLength then tl ((W @ [c]) @ [c]) else (W @ [c]) @ [c])
        = Y @ [c, c]"
    using True by (simp add: W)
  then show ?thesis
    using ev computeFeatures_repeat_deltas [of st Y c] by (simp add: W)
qed

text \<open>The 5 s deltas on a history of equal ticks, with or without an older first entry.\<close>

lemma sorted_all_same:
  "\<forall>x\<in>set ys. x = y \<Longrightarrow> sorted (map f ys)"
  by (induction ys) auto

lemma findClosest_loop_all_same:
  "\<forall>x\<in>set ys. x = y \<Longrightarrow>
   findClosest_loop t ys (a, da)
   = (if ys \<noteq> [] \<and> \<bar>h_timestamp y - t\<bar> < da then (y, \<bar>h_timestamp y - t\<bar>) else (a, da))"
  by (induction ys arbitrary: a da) (auto simp: Let_def)

lemma computeFeatures_head_then_same:
  assumes "\<forall>x\<in>set ys. x = y" "ys \<noteq> []" "h_timestamp e \<le> h_timestamp y"
  shows "delta_5s_side_px (computeFeatures st (e # ys))
         = (if \<bar>h_timestamp y - (timestamp st - 5000)\<bar> < \<bar>h_timestamp e - (timestamp st - 5000)\<bar>
            then (if \<bar>h_timestamp y - (timestamp st - 5000)\<bar> < 10000
                  then Some (up_px st - h_up_px y) else None)
            else (if \<bar>h_timestamp e - (timestamp st - 5000)\<bar> < 10000
                  then Some (up_px st - h_up_px e) else None))"
    and "delta_5s_down_px (computeFeatures st (e # ys))
         = (if \<bar>h_timestamp y - (timestamp st - 5000)\<bar> < \<bar>h_timestamp e - (timestamp st - 5000)\<bar>
            then (if \<bar>h_timestamp y - (timestamp st - 5000)\<bar> < 10000
                  then Some (down_px st - h_down_px y) else None)
            else (if \<bar>h_timestamp e - (timestamp st - 5000)\<bar> < 10000
                  then Some (down_px st - h_down_px e) else None))"
proof -
  have "sorted (map h_timestamp (e # ys))"
    using assms sorted_all_same [OF assms(1), of h_timestamp] by auto
  then have srt: "sort_key h_timestamp (e # ys) = e # ys"
    by (rule sort_key_id_if_sorted)
  have fc: "findClosest e (e # ys) t
            = (if \<bar>h_timestamp y - t\<bar> < \<bar>h_timestamp e - t\<bar> then y else e)" for t
    using assms(2) by (simp add: findClosest_def Let_def findClosest_loop_all_same [OF assms(1)])
  show "delta_5s_side_px (computeFeatures st (e # ys))
         = (if \<bar>h_timestamp y - (timestamp st - 5000)\<bar> < \<bar>h_timestamp e - (timestamp st - 5000)\<bar>
            then (if \<bar>h_timestamp y - (timestamp st - 5000)\<bar> < 10000
                  then Some (up_px st - h_up_px y) else None)
            else (if \<bar>h_timestamp e - (timestamp st - 5000)\<bar> < 10000
                  then Some (up_px st - h_up_px e) else None))"
    unfolding computeFeatures_def
    by (simp add: srt Let_def windowDelta_def fc del: sort_key_simps insort_key.simps)
  show "delta_5s_down_px (computeFeatures st (e # ys))
         = (if \<bar>h_timestamp y - (timestamp st - 5000)\<bar> < \<bar>h_timestamp e - (timestamp st - 5000)\<bar>
            then (if \<bar>h_timestamp y - (timestamp st - 5000)\<bar> < 10000
                  then Some (down_px st - h_down_px y) else None)
            else (if \<bar>h_timestamp e - (timestamp st - 5000)\<bar> < 10000
                  then Some (down_px st - h_down_px e) else None))"
    unfolding computeFeatures_def
    by (simp add: srt Let_def windowDelta_def fc del: sort_key_simps insort_key.simps)
qed

lemma computeFeatures_all_same:
  assumes "\<forall>x\<in>set zs. x = y" "2 \<le> length zs"
  shows "delta_5s_side_px (computeFeatures st zs)
         = (if \<bar>h_timestamp y - (timestamp st - 5000)\<bar> < 10000
            then Some (up_px st - h_up_px y) else None)"
    and "delta_5s_down_px (computeFeatures st zs)
         = (if \<bar>h_timestamp y - (timestamp st - 5000)\<bar> < 10000
            then Some (down_px st - h_down_px y) else None)"
proof -
  from assms(2) obtain z ys where z: "zs = z # ys"
    by (cases zs) auto
  with assms(2) have "ys \<noteq> []" by auto
  note zs = z this
  with assms(1) have "z = y" "\<forall>x\<in>set ys. x = y" by auto
  with zs show "delta_5s_side_px (computeFeatures st zs)
         = (if \<bar>h_timestamp y - (timestamp st - 5000)\<bar> < 10000
            then Some (up_px st - h_up_px y) else None)"
    and "delta_5s_down_px (computeFeatures st zs)
         = (if \<bar>h_timestamp y - (timestamp st - 5000)\<bar> < 10000
            then Some (down_px st - h_down_px y) else None)"
    by (simp_all add: computeFeatures_head_then_same [where y = y])
qed

lemmas twice_eval = shouldTrade_def Let_def decideAfterSnapshot_def resetIfNeeded_def
  emptyIntegrator_def updatePriceHistory_def getInventory_def getOrNull_def
  maxHistoryLength_def orZero_def noParams_def exEntry_def exQuality_def
  checkDataQuality_def decideGates_def gatesBeforeSizing_def selectedSideOf_def sizeAndExecute_def
  cadenceOk_def entrySignal_def entrySignalWith_def IGNORE_ENTRY_BANDS_def modeCheck_def inBand_def
  sizeForTrade_def inventoryOkAndRebalance_def simulateFillPrice_def noTrade_def

lemma full_first:
  "shouldTrade (fullIntegrator 15000) ''BTC_15m'' 20000 0.5 0.5 momentumParams
   = (Inr \<lparr> d_shouldTrade = True, d_side = Some UP, shares = 1, d_reason = ''momentum_met'',
             decisionId = 1, fillPrice = Some 0.5 \<rparr>,
      \<lparr> priceHistory = [''BTC_15m'' \<mapsto> fullHistory 15000 @ [\<lparr> h_timestamp = 20000, h_up_px = 0.5, h_down_px = 0.5 \<rparr>]],
        inventory = [''BTC_15m'' \<mapsto> \<lparr> inv_up_shares = 0, inv_down_shares = 0, avg_cost_up = None, avg_cost_down = None \<rparr>],
        lastTradeTime = Map.empty, recentTradeTimes = Map.empty, decisionIdCounter = 1,
        tradesPerSession = Map.empty,
        lastPriceState = [''BTC_15m'' \<mapsto> \<lparr> lp_up_px = 0.5, lp_down_px = 0.5, lp_timestamp = 20000 \<rparr>] \<rparr>)"
  by (simp add: twice_eval fullIntegrator_def fullHistory_def momentumParams_def
        computeFeatures_head_then_same [where y = "\<lparr> h_timestamp = 20000, h_up_px = 0.5, h_down_px = 0.5 \<rparr>"])

lemma full_second:
  "fst (shouldTrade (snd (shouldTrade (fullIntegrator 15000) ''BTC_15m'' 20000 0.5 0.5 momentumParams))
          ''BTC_15m'' 20000 0.5 0.5 momentumParams)
   = Inr (noTrade ''no_band_match'' 2)"
  unfolding full_first
  by (simp add: twice_eval fullHistory_def momentumParams_def
        computeFeatures_all_same [where y = "\<lparr> h_timestamp = 20000, h_up_px = 0.5, h_down_px = 0.5 \<rparr>"])

lemma aged_first:
  "shouldTrade (fullIntegrator 1000) ''BTC_15m'' 20000 0.5 0.5 momentumParams
   = (Inr (noTrade ''no_band_match'' 1),
      \<lparr> priceHistory = [''BTC_15m'' \<mapsto> fullHistory 1000 @ [\<lparr> h_timestamp = 20000, h_up_px = 0.5, h_down_px = 0.5 \<rparr>]],
        inventory = [''BTC_15m'' \<mapsto> \<lparr> inv_up_shares = 0, inv_down_shares = 0, avg_cost_up = None, avg_cost_down = None \<rparr>],
        lastTradeTime = Map.empty, recentTradeTimes = Map.empty, decisionIdCounter = 1,
        tradesPerSession = Map.empty,
        lastPriceState = [''BTC_15m'' \<mapsto> \<lparr> lp_up_px = 0.5, lp_down_px = 0.5, lp_timestamp = 20000 \<rparr>] \<rparr>)"
  by (simp add: twice_eval fullIntegrator_def fullHistory_def momentumParams_def
        computeFeatures_head_then_same [where y = "\<lparr> h_timestamp = 20000, h_up_px = 0.5, h_down_px = 0.5 \<rparr>"])

lemma hasty_first:
  "shouldTrade emptyIntegrator ''BTC_15m'' 1000 0.5 0.5 (paperParams\<lparr> quality_filter_params := Some hastyQuality \<rparr>)
   = (Inr \<lparr> d_shouldTrade = True, d_side = Some UP, shares = 1, d_reason = ''up_price_band'',
             decisionId = 1, fillPrice = Some 0.5 \<rparr>,
      \<lparr> priceHistory = [''BTC_15m'' \<mapsto> [\<lparr> h_timestamp = 1000, h_up_px = 0.5, h_down_px = 0.5 \<rparr>]],
        inventory = [''BTC_15m'' \<mapsto> \<lparr> inv_up_shares = 0, inv_down_shares = 0, avg_cost_up = None, avg_cost_down = None \<rparr>],
        lastTradeTime = Map.empty, recentTradeTimes = Map.empty, decisionIdCounter = 1,
        tradesPerSession = Map.empty,
        lastPriceState = [''BTC_15m'' \<mapsto> \<lparr> lp_up_px = 0.5, lp_down_px = 0.5, lp_timestamp = 1000 \<rparr>] \<rparr>)"
  by (simp add: twice_eval paperParams_def hastyQuality_def computeFeatures_single initFeatures_def)

lemma hasty_second:
  "fst (shouldTrade (snd (shouldTrade emptyIntegrator ''BTC_15m'' 1000 0.5 0.5
                            (paperParams\<lparr> quality_filter_params := Some hastyQuality \<rparr>)))
          ''BTC_15m'' 1000 0.5 0.5 (paperParams\<lparr> quality_filter_params := Some hastyQuality \<rparr>))
   = Inr (noTrade ''data_quality_filter_failed'' 2)"
  unfolding hasty_first
  by (simp add: twice_eval paperParams_def hastyQuality_def)

subsection \<open>C7: range of the feature \<open>distance_from_50\<close>\<close>

text \<open>
  C7 as stated fails: the UP price is not clamped, and at \<open>up_px = 2\<close> the feature is 1.5.
\<close>

theorem distance_from_50_counterexample:
  "\<not> distance_from_50
        (computeFeatures \<lparr> timestamp = 1000, up_px = 2, down_px = 0.5, market = ''BTC_15m'' \<rparr> []) \<le> 0.5"
  by (simp add: distance_from_50_computeFeatures)

text \<open>
  C7 (amended). For every tape state and history, \<open>distance_from_50\<close> of \<open>computeFeatures\<close> is
  non-negative, and it is at most 0.5 exactly when the UP price lies in \<open>[0, 1]\<close>.
\<close>

theorem distance_from_50_range:
  "0 \<le> distance_from_50 (computeFeatures state history) \<and>
   (distance_from_50 (computeFeatures state history) \<le> 0.5 \<longleftrightarrow> 0 \<le> up_px state \<and> up_px state \<le> 1)"
  unfolding distance_from_50_computeFeatures by arith

theorem distance_from_50_range_witness:
  "distance_from_50
     (computeFeatures \<lparr> timestamp = 1000, up_px = 0.3, down_px = 0.7, market = ''BTC_15m'' \<rparr>
        [\<lparr> h_timestamp = 0, h_up_px = 0.4, h_down_px = 0.6 \<rparr>]) \<le> 0.5"
  using distance_from_50_range
    [where state = "\<lparr> timestamp = 1000, up_px = 0.3, down_px = 0.7, market = ''BTC_15m'' \<rparr>"
       and history = "[\<lparr> h_timestamp = 0, h_up_px = 0.4, h_down_px = 0.6 \<rparr>]"]
  by simp

subsection \<open>C9: the inventory gate\<close>

text \<open>
  C9. With inventory parameters given, \<open>inventoryOkAndRebalance\<close> returns null when the total
  of both sides has reached \<open>max_total_shares\<close>, returns null when the proposed side has
  reached its own cap, and otherwise returns the proposed side; it never returns the other
  side. With \<open>max_total_shares = 50\<close>, \<open>inv_up = 30\<close>, \<open>inv_down = 25\<close> it returns null for
  either side.
\<close>

theorem inventoryOkAndRebalance_caps:
  "(inv_up_shares i + inv_down_shares i \<ge> max_total_shares ip \<longrightarrow>
      inventoryOkAndRebalance i (Some ip) sd = None) \<and>
   (sd = UP \<and> inv_up_shares i \<ge> max_up_shares ip \<longrightarrow> inventoryOkAndRebalance i (Some ip) sd = None) \<and>
   (sd = DOWN \<and> inv_down_shares i \<ge> max_down_shares ip \<longrightarrow> inventoryOkAndRebalance i (Some ip) sd = None) \<and>
   (inv_up_shares i + inv_down_shares i < max_total_shares ip \<and>
    (sd = UP \<longrightarrow> inv_up_shares i < max_up_shares ip) \<and>
    (sd = DOWN \<longrightarrow> inv_down_shares i < max_down_shares ip) \<longrightarrow>
      inventoryOkAndRebalance i (Some ip) sd = Some sd) \<and>
   inventoryOkAndRebalance i (Some ip) sd \<in> {None, Some sd} \<and>
   (max_total_shares ip = 50 \<and> inv_up_shares i = 30 \<and> inv_down_shares i = 25 \<longrightarrow>
      inventoryOkAndRebalance i (Some ip) UP = None \<and> inventoryOkAndRebalance i (Some ip) DOWN = None)"
  by (cases sd) (auto simp: inventoryOkAndRebalance_def Let_def)

theorem inventoryOkAndRebalance_caps_witness:
  "inventoryOkAndRebalance \<lparr> inv_up_shares = 30, inv_down_shares = 25, avg_cost_up = None, avg_cost_down = None \<rparr>
      (Some \<lparr> rebalance_ratio_R = 0.6, max_up_shares = 100, max_down_shares = 100, max_total_shares = 50 \<rparr>) UP = None \<and>
   inventoryOkAndRebalance \<lparr> inv_up_shares = 30, inv_down_shares = 25, avg_cost_up = None, avg_cost_down = None \<rparr>
      (Some \<lparr> rebalance_ratio_R = 0.6, max_up_shares = 100, max_down_shares = 100, max_total_shares = 50 \<rparr>) DOWN = None \<and>
   inventoryOkAndRebalance \<lparr> inv_up_shares = 50, inv_down_shares = 10, avg_cost_up = None, avg_cost_down = None \<rparr>
      (Some \<lparr> rebalance_ratio_R = 0.6, max_up_shares = 50, max_down_shares = 100, max_total_shares = 200 \<rparr>) UP = None \<and>
   inventoryOkAndRebalance \<lparr> inv_up_shares = 10, inv_down_shares = 50, avg_cost_up = None, avg_cost_down = None \<rparr>
      (Some \<lparr> rebalance_ratio_R = 0.6, max_up_shares = 100, max_down_shares = 50, max_total_shares = 200 \<rparr>) DOWN = None \<and>
   inventoryOkAndRebalance \<lparr> inv_up_shares = 70, inv_down_shares = 30, avg_cost_up = None, avg_cost_down = None \<rparr>
      (Some \<lparr> rebalance_ratio_R = 0.6, max_up_shares = 100, max_down_shares = 100, max_total_shares = 200 \<rparr>) UP = Some UP"
  using inventoryOkAndRebalance_caps
      [where sd = UP and i = "\<lparr> inv_up_shares = 30, inv_down_shares = 25, avg_cost_up = None, avg_cost_down = None \<rparr>"
          and ip = "\<lparr> rebalance_ratio_R = 0.6, max_up_shares = 100, max_down_shares = 100, max_total_shares = 50 \<rparr>"]
    inventoryOkAndRebalance_caps
      [where sd = UP and i = "\<lparr> inv_up_shares = 50, inv_down_shares = 10, avg_cost_up = None, avg_cost_down = None \<rparr>"
          and ip = "\<lparr> rebalance_ratio_R = 0.6, max_up_shares = 50, max_down_shares = 100, max_total_shares = 200 \<rparr>"]
    inventoryOkAndRebalance_caps
      [where sd = DOWN and i = "\<lparr> inv_up_shares = 10, inv_down_shares = 50, avg_cost_up = None, avg_cost_down = None \<rparr>"
          and ip = "\<lparr> rebalance_ratio_R = 0.6, max_up_shares = 100, max_down_shares = 50, max_total_shares = 200 \<rparr>"]
    inventoryOkAndRebalance_caps
      [where sd = UP and i = "\<lparr> inv_up_shares = 70, inv_down_shares = 30, avg_cost_up = None, avg_cost_down = None \<rparr>"
          and ip = "\<lparr> rebalance_ratio_R = 0.6, max_up_shares = 100, max_down_shares = 100, max_total_shares = 200 \<rparr>"]
  by simp

subsection \<open>C10: the cadence gate\<close>

text \<open>
  C10. With cadence parameters given, \<open>cadenceOk\<close> returns false exactly when a last trade
  exists, \<open>min_inter_trade_ms > 0\<close> and \<open>now - last_trade_ts < min_inter_trade_ms\<close>, or the
  number of recent trade timestamps in \<open>[now - 1000, now]\<close> is at least \<open>max_trades_per_sec\<close>,
  or the number in \<open>[now - 60000, now]\<close> is at least \<open>max_trades_per_min\<close>. With
  \<open>min_inter_trade_ms = 0\<close> the last trade time has no influence on the result.
\<close>

theorem cadenceOk_blocks_iff:
  "(\<not> cadenceOk lastTradeTs recent (Some cp) now \<longleftrightarrow>
      (\<exists>l. lastTradeTs = Some l \<and> min_inter_trade_ms cp > 0 \<and> now - l < min_inter_trade_ms cp) \<or>
      real (length (filter (\<lambda>ts. now - 1000 \<le> ts \<and> ts \<le> now) recent)) \<ge> max_trades_per_sec cp \<or>
      real (length (filter (\<lambda>ts. now - 60000 \<le> ts \<and> ts \<le> now) recent)) \<ge> max_trades_per_min cp) \<and>
   (min_inter_trade_ms cp = 0 \<longrightarrow>
      cadenceOk lastTradeTs recent (Some cp) now = cadenceOk None recent (Some cp) now)"
  by (cases lastTradeTs) (auto simp: cadenceOk_def tradesInWindow_def)

theorem cadenceOk_blocks_iff_witness:
  "\<not> cadenceOk (Some 500) [] (Some \<lparr> min_inter_trade_ms = 2000, p50_inter_trade_ms = 2500,
        p95_inter_trade_ms = 5000, max_trades_per_sec = 10, max_trades_per_min = 100 \<rparr>) 1000 \<and>
   cadenceOk (Some 999) [995, 998] (Some \<lparr> min_inter_trade_ms = 0, p50_inter_trade_ms = 2500,
        p95_inter_trade_ms = 5000, max_trades_per_sec = 3, max_trades_per_min = 100 \<rparr>) 1000 \<and>
   \<not> cadenceOk None [995, 998] (Some \<lparr> min_inter_trade_ms = 0, p50_inter_trade_ms = 2500,
        p95_inter_trade_ms = 5000, max_trades_per_sec = 2, max_trades_per_min = 100 \<rparr>) 1000"
  using cadenceOk_blocks_iff [where lastTradeTs = "Some 500" and recent = "[]" and now = 1000
      and cp = "\<lparr> min_inter_trade_ms = 2000, p50_inter_trade_ms = 2500,
        p95_inter_trade_ms = 5000, max_trades_per_sec = 10, max_trades_per_min = 100 \<rparr>"]
    cadenceOk_blocks_iff [where lastTradeTs = "Some 999" and recent = "[995, 998]" and now = 1000
      and cp = "\<lparr> min_inter_trade_ms = 0, p50_inter_trade_ms = 2500,
        p95_inter_trade_ms = 5000, max_trades_per_sec = 3, max_trades_per_min = 100 \<rparr>"]
    cadenceOk_blocks_iff [where lastTradeTs = "None" and recent = "[995, 998]" and now = 1000
      and cp = "\<lparr> min_inter_trade_ms = 0, p50_inter_trade_ms = 2500,
        p95_inter_trade_ms = 5000, max_trades_per_sec = 3, max_trades_per_min = 100 \<rparr>"]
    cadenceOk_blocks_iff [where lastTradeTs = "None" and recent = "[995, 998]" and now = 1000
      and cp = "\<lparr> min_inter_trade_ms = 0, p50_inter_trade_ms = 2500,
        p95_inter_trade_ms = 5000, max_trades_per_sec = 2, max_trades_per_min = 100 \<rparr>"]
  by simp

subsection \<open>C1: entry signal and price bands\<close>

text \<open>
  C1 as stated fails: \<open>IGNORE_ENTRY_BANDS\<close> is \<open>true\<close>, so \<open>entrySignal\<close> signals UP at
  \<open>up_px = 0.9\<close> although the UP band is \<open>[0.4, 0.6]\<close>.
\<close>

theorem entrySignal_counterexample:
  "side (entrySignal \<lparr> timestamp = 1000, up_px = 0.9, down_px = 0.1, market = ''BTC_15m'' \<rparr>
           (initFeatures \<lparr> timestamp = 1000, up_px = 0.9, down_px = 0.1, market = ''BTC_15m'' \<rparr>)
           (Some \<lparr> up_price_min = Some 0.4, up_price_max = Some 0.6,
                   down_price_min = Some 0.4, down_price_max = Some 0.6,
                   momentum_window_s = 5, momentum_threshold = 0.01, mode = ''none'' \<rparr>)) = Some UP \<and>
   \<not> inBand (Some 0.4) (Some 0.6) 0.9"
  by (simp add: entrySignal_def entrySignalWith_def IGNORE_ENTRY_BANDS_def modeCheck_def Let_def
        initFeatures_def inBand_def)

text \<open>
  C1 (amended). As shipped (\<open>IGNORE_ENTRY_BANDS = true\<close>), \<open>entrySignal\<close> does not read the
  price bands: its result is the same whatever the four band bounds are, and it is decided
  by the mode check alone. With \<open>d5\<close> the feature \<open>delta_5s_side_px\<close> (0 when missing) and
  \<open>dd\<close> the feature \<open>delta_5s_down_px\<close> (\<open>d5\<close> when missing): in momentum mode it signals UP
  when \<open>d5 \<ge> momentum_threshold\<close>, else DOWN when \<open>dd \<ge> momentum_threshold\<close>, else nothing
  (\<open>no_band_match\<close>); in reversion mode the same with \<open>d5 \<le> - momentum_threshold\<close> and
  \<open>dd \<le> - momentum_threshold\<close>; in any other mode it always signals UP. The band rule of the
  claim holds in \<open>checkSideEntry\<close>: it signals the side asked for exactly when both bounds
  of that side are non-null, the side's price lies inclusively within them, and the mode
  check on that side's delta passes.
\<close>

theorem entrySignal_bands:
  "(let d5 = (case delta_5s_side_px f of None \<Rightarrow> 0 | Some x \<Rightarrow> x);
        dd = (case delta_5s_down_px f of None \<Rightarrow> d5 | Some x \<Rightarrow> x);
        thr = momentum_threshold ep;
        upBand = (\<exists>lo hi. up_price_min ep = Some lo \<and> up_price_max ep = Some hi \<and>
                          lo \<le> up_px st \<and> up_px st \<le> hi);
        downBand = (\<exists>lo hi. down_price_min ep = Some lo \<and> down_price_max ep = Some hi \<and>
                            lo \<le> down_px st \<and> down_px st \<le> hi)
    in entrySignal st f (Some ep) =
         entrySignal st f
           (Some (ep\<lparr> up_price_min := a, up_price_max := b, down_price_min := c, down_price_max := d \<rparr>)) \<and>
       (mode ep = ''momentum'' \<longrightarrow>
          entrySignal st f (Some ep) =
            (if thr \<le> d5 then \<lparr> should_trade = True, side = Some UP, reason = ''momentum_met'' \<rparr>
             else if thr \<le> dd then \<lparr> should_trade = True, side = Some DOWN, reason = ''momentum_met'' \<rparr>
             else \<lparr> should_trade = False, side = None, reason = ''no_band_match'' \<rparr>)) \<and>
       (mode ep = ''reversion'' \<longrightarrow>
          entrySignal st f (Some ep) =
            (if d5 \<le> - thr then \<lparr> should_trade = True, side = Some UP, reason = ''reversion_met'' \<rparr>
             else if dd \<le> - thr then \<lparr> should_trade = True, side = Some DOWN, reason = ''reversion_met'' \<rparr>
             else \<lparr> should_trade = False, side = None, reason = ''no_band_match'' \<rparr>)) \<and>
       (mode ep \<noteq> ''momentum'' \<and> mode ep \<noteq> ''reversion'' \<longrightarrow>
          entrySignal st f (Some ep) = \<lparr> should_trade = True, side = Some UP, reason = ''up_price_band'' \<rparr>) \<and>
       (should_trade (checkSideEntry st f (Some ep) UP) \<longleftrightarrow>
          upBand \<and> (mode ep = ''momentum'' \<longrightarrow> thr \<le> d5) \<and> (mode ep = ''reversion'' \<longrightarrow> d5 \<le> - thr)) \<and>
       side (checkSideEntry st f (Some ep) UP)
         = (if should_trade (checkSideEntry st f (Some ep) UP) then Some UP else None) \<and>
       (should_trade (checkSideEntry st f (Some ep) DOWN) \<longleftrightarrow>
          downBand \<and> (mode ep = ''momentum'' \<longrightarrow> thr \<le> dd) \<and> (mode ep = ''reversion'' \<longrightarrow> dd \<le> - thr)) \<and>
       side (checkSideEntry st f (Some ep) DOWN)
         = (if should_trade (checkSideEntry st f (Some ep) DOWN) then Some DOWN else None))"
proof -
  have free: "entrySignal st f (Some ep) =
         entrySignal st f
           (Some (ep\<lparr> up_price_min := a, up_price_max := b, down_price_min := c, down_price_max := d \<rparr>))"
  proof -
    have "modeCheck (ep\<lparr> up_price_min := a, up_price_max := b, down_price_min := c, down_price_max := d \<rparr>) x r
          = modeCheck ep x r" for x r
      by (simp add: modeCheck_def)
    then show ?thesis
      by (simp add: entrySignal_def entrySignalWith_def IGNORE_ENTRY_BANDS_def Let_def cong: if_cong)
  qed
  have sig: "entrySignal st f (Some ep) =
      (let d5 = (case delta_5s_side_px f of None \<Rightarrow> 0 | Some x \<Rightarrow> x);
           dd = (case delta_5s_down_px f of None \<Rightarrow> d5 | Some x \<Rightarrow> x)
       in if fst (modeCheck ep d5 ''up_price_band'')
          then \<lparr> should_trade = True, side = Some UP, reason = snd (modeCheck ep d5 ''up_price_band'') \<rparr>
          else if fst (modeCheck ep dd ''down_price_band'')
          then \<lparr> should_trade = True, side = Some DOWN, reason = snd (modeCheck ep dd ''down_price_band'') \<rparr>
          else \<lparr> should_trade = False, side = None, reason = ''no_band_match'' \<rparr>)"
    by (simp add: entrySignal_def entrySignalWith_def IGNORE_ENTRY_BANDS_def Let_def)
  have band: "inBand lo hi px \<longleftrightarrow> (\<exists>l h. lo = Some l \<and> hi = Some h \<and> l \<le> px \<and> px \<le> h)" for lo hi px
    by (cases lo; cases hi) (simp_all add: inBand_def)
  have cse: "checkSideEntry st f (Some ep) sd =
      (let d5 = (case delta_5s_side_px f of None \<Rightarrow> 0 | Some x \<Rightarrow> x);
           dd = (case delta_5s_down_px f of None \<Rightarrow> d5 | Some x \<Rightarrow> x)
       in if sd = UP
          then (if \<not> inBand (up_price_min ep) (up_price_max ep) (up_px st)
                then \<lparr> should_trade = False, side = None, reason = ''up_price_not_in_band'' \<rparr>
                else \<lparr> should_trade = fst (modeCheck ep d5 ''up_price_band''),
                       side = (if fst (modeCheck ep d5 ''up_price_band'') then Some UP else None),
                       reason = snd (modeCheck ep d5 ''up_price_band'') \<rparr>)
          else (if \<not> inBand (down_price_min ep) (down_price_max ep) (down_px st)
                then \<lparr> should_trade = False, side = None, reason = ''down_price_not_in_band'' \<rparr>
                else \<lparr> should_trade = fst (modeCheck ep dd ''down_price_band''),
                       side = (if fst (modeCheck ep dd ''down_price_band'') then Some DOWN else None),
                       reason = snd (modeCheck ep dd ''down_price_band'') \<rparr>))" for sd
    by (simp add: checkSideEntry_def Let_def)
  have mc: "fst (modeCheck ep x r) \<longleftrightarrow>
      (mode ep = ''momentum'' \<longrightarrow> momentum_threshold ep \<le> x) \<and>
      (mode ep = ''reversion'' \<longrightarrow> x \<le> - momentum_threshold ep)" for x r
    by (auto simp: modeCheck_def)
  have mr: "fst (modeCheck ep x r) \<Longrightarrow> snd (modeCheck ep x r) =
      (if mode ep = ''momentum'' then ''momentum_met''
       else if mode ep = ''reversion'' then ''reversion_met'' else r)" for x r
    by (auto simp: modeCheck_def split: if_splits)
  show ?thesis
    unfolding Let_def
    apply (intro conjI impI)
            apply (rule free)
           apply (simp add: sig Let_def mc mr)
          apply (simp add: sig Let_def mc mr)
         apply (simp add: sig Let_def mc mr)
        apply (auto simp: cse Let_def mc band)[1]
       apply (simp add: cse Let_def mc)
      apply (auto simp: cse Let_def mc band)[1]
     apply (simp add: cse Let_def mc)
    done
qed

theorem entrySignal_bands_witness:
  "entrySignal (exTape 0.9 0.1) (exFeatures 0.02 (- 0.02)) (Some (exEntry\<lparr> mode := ''momentum'' \<rparr>))
     = \<lparr> should_trade = True, side = Some UP, reason = ''momentum_met'' \<rparr> \<and>
   entrySignal (exTape 0.9 0.1) (exFeatures (- 0.02) 0.02) (Some (exEntry\<lparr> mode := ''momentum'' \<rparr>))
     = \<lparr> should_trade = True, side = Some DOWN, reason = ''momentum_met'' \<rparr> \<and>
   entrySignal (exTape 0.9 0.1) (exFeatures 0 0) (Some (exEntry\<lparr> mode := ''momentum'' \<rparr>))
     = \<lparr> should_trade = False, side = None, reason = ''no_band_match'' \<rparr> \<and>
   entrySignal (exTape 0.9 0.1) (exFeatures (- 0.02) 0.02) (Some (exEntry\<lparr> mode := ''reversion'' \<rparr>))
     = \<lparr> should_trade = True, side = Some UP, reason = ''reversion_met'' \<rparr> \<and>
   entrySignal (exTape 0.9 0.1) (exFeatures 0.02 (- 0.02)) (Some (exEntry\<lparr> mode := ''reversion'' \<rparr>))
     = \<lparr> should_trade = True, side = Some DOWN, reason = ''reversion_met'' \<rparr> \<and>
   entrySignal (exTape 0.9 0.1) (exFeatures 0 0) (Some exEntry)
     = \<lparr> should_trade = True, side = Some UP, reason = ''up_price_band'' \<rparr> \<and>
   should_trade (checkSideEntry (exTape 0.5 0.5) (exFeatures 0.02 (- 0.02)) (Some (exEntry\<lparr> mode := ''momentum'' \<rparr>)) UP) \<and>
   \<not> should_trade (checkSideEntry (exTape 0.5 0.5) (exFeatures 0 0) (Some (exEntry\<lparr> mode := ''momentum'' \<rparr>)) UP) \<and>
   \<not> should_trade (checkSideEntry (exTape 0.9 0.1) (exFeatures 0 0) (Some exEntry) UP) \<and>
   should_trade (checkSideEntry (exTape 0.5 0.5) (exFeatures 0 0) (Some exEntryDown) DOWN) \<and>
   \<not> should_trade (checkSideEntry (exTape 0.5 0.5) (exFeatures 0 0) (Some exEntry) DOWN)"
  using entrySignal_bands [where st = "exTape 0.9 0.1" and f = "exFeatures 0.02 (- 0.02)"
      and ep = "exEntry\<lparr> mode := ''momentum'' \<rparr>" and a = None and b = None and c = None and d = None]
    entrySignal_bands [where st = "exTape 0.9 0.1" and f = "exFeatures (- 0.02) 0.02"
      and ep = "exEntry\<lparr> mode := ''momentum'' \<rparr>" and a = None and b = None and c = None and d = None]
    entrySignal_bands [where st = "exTape 0.9 0.1" and f = "exFeatures 0 0"
      and ep = "exEntry\<lparr> mode := ''momentum'' \<rparr>" and a = None and b = None and c = None and d = None]
    entrySignal_bands [where st = "exTape 0.9 0.1" and f = "exFeatures (- 0.02) 0.02"
      and ep = "exEntry\<lparr> mode := ''reversion'' \<rparr>" and a = None and b = None and c = None and d = None]
    entrySignal_bands [where st = "exTape 0.9 0.1" and f = "exFeatures 0.02 (- 0.02)"
      and ep = "exEntry\<lparr> mode := ''reversion'' \<rparr>" and a = None and b = None and c = None and d = None]
    entrySignal_bands [where st = "exTape 0.9 0.1" and f = "exFeatures 0 0"
      and ep = exEntry and a = None and b = None and c = None and d = None]
    entrySignal_bands [where st = "exTape 0.5 0.5" and f = "exFeatures 0.02 (- 0.02)"
      and ep = "exEntry\<lparr> mode := ''momentum'' \<rparr>" and a = None and b = None and c = None and d = None]
    entrySignal_bands [where st = "exTape 0.5 0.5" and f = "exFeatures 0 0"
      and ep = "exEntry\<lparr> mode := ''momentum'' \<rparr>" and a = None and b = None and c = None and d = None]
    entrySignal_bands [where st = "exTape 0.5 0.5" and f = "exFeatures 0 0"
      and ep = exEntryDown and a = None and b = None and c = None and d = None]
    entrySignal_bands [where st = "exTape 0.5 0.5" and f = "exFeatures 0 0"
      and ep = exEntry and a = None and b = None and c = None and d = None]
  by (simp add: exEntry_def exEntryDown_def exFeatures_def exTape_def Let_def
        entrySignal_def entrySignalWith_def IGNORE_ENTRY_BANDS_def modeCheck_def checkSideEntry_def
        inBand_def initFeatures_def)

subsection \<open>C2: a reload that fails\<close>

text \<open>
  C2 as stated fails: with a snapshot loaded and the file replaced by malformed JSON with a
  newer modification time, the poll stores the defaults, and \<open>getParams\<close> no longer returns
  the snapshot; the market's entry parameters are gone. The same happens when the new file
  parses but its conversion throws (a \<open>null\<close> market block). A file that is missing at the
  poll leaves the loader as it was.
\<close>

theorem failed_reload_counterexample:
  "fst (getParams (pollTick exLoader (Some (Malformed, 200))) (Some (Malformed, 200)))
   \<noteq> fst (getParams exLoader (Some (Malformed, 200))) \<and>
   fst (getParams (pollTick exLoader (Some (Document exNullMarket, 200))) (Some (Document exNullMarket, 200)))
   \<noteq> fst (getParams exLoader (Some (Document exNullMarket, 200))) \<and>
   fst (getMarketParams exLoader (Some (Malformed, 200)) ''BTC_15m'')
     = Inr (noParams\<lparr> entry_params := Some exEntry \<rparr>) \<and>
   fst (getMarketParams (pollTick exLoader (Some (Malformed, 200))) (Some (Malformed, 200)) ''BTC_15m'')
     = Inr noParams \<and>
   pollTick exLoader None = exLoader"
proof -
  have "(\<lambda>x. None) \<noteq> [''BTC_15m'' \<mapsto> exEntry]"
    by (metis map_upd_nonempty)
  then show ?thesis
    by (simp add: getParams_def pollTick_def loadParams_def getDefaultParams_def exLoader_def
          exSnapshot_def exNullMarket_def isNewFormat_def convertNewToOldFormat_def marketKeys_def
          getMarketParams_def sectionAt_def normalizeMarketKey_def noParams_def Let_def)
qed

text \<open>
  C2 (what the code does). A load that throws (malformed JSON, or a market-first document
  with a \<open>null\<close> market block) is caught: \<open>loadParams\<close> returns the default parameters (four
  empty per-market maps) and leaves the loader as it was. A poll that finds the file changed
  stores what \<open>loadParams\<close> returned, so after a failed reload \<open>getParams\<close> returns the
  defaults and not the previous snapshot, while \<open>lastModified\<close> is unchanged. The snapshot
  stays only when the file is absent at the poll or its modification time is not newer. A
  document whose \<open>entry_params\<close> section has no \<open>per_market\<close> passes \<open>validateParams\<close> and
  is stored; \<open>getMarketParams\<close> then throws for every market key.
\<close>

theorem failed_reload_defaults:
  "(mtimeMs > lastModified loader \<longrightarrow>
      fst (getParams (pollTick loader (Some (Malformed, mtimeMs))) disk') = getDefaultParams \<and>
      lastModified (pollTick loader (Some (Malformed, mtimeMs))) = lastModified loader) \<and>
   (mtimeMs > lastModified loader \<and> isNewFormat parsed \<and>
    (\<exists>k\<in>set marketKeys. (k, None) \<in> set (doc_other_keys parsed)) \<longrightarrow>
      fst (getParams (pollTick loader (Some (Document parsed, mtimeMs))) disk') = getDefaultParams \<and>
      lastModified (pollTick loader (Some (Document parsed, mtimeMs))) = lastModified loader) \<and>
   (mtimeMs \<le> lastModified loader \<longrightarrow> pollTick loader (Some (content, mtimeMs)) = loader) \<and>
   pollTick loader None = loader \<and>
   loadParams loader None = (getDefaultParams, loader) \<and>
   loadParams loader (Some (Malformed, mtimeMs)) = (getDefaultParams, loader) \<and>
   (isNewFormat parsed \<and> (\<exists>k\<in>set marketKeys. (k, None) \<in> set (doc_other_keys parsed)) \<longrightarrow>
      loadParams loader (Some (Document parsed, mtimeMs)) = (getDefaultParams, loader)) \<and>
   (mtimeMs > lastModified loader \<and> doc_entry_params parsed = Defined NoPerMarket \<longrightarrow>
      fst (getMarketParams (pollTick loader (Some (Document parsed, mtimeMs))) disk' marketKey)
        = Inl TypeError)"
proof -
  have nb: "isNewFormat parsed \<and> (\<exists>k\<in>set marketKeys. (k, None) \<in> set (doc_other_keys parsed)) \<Longrightarrow>
      loadParams loader (Some (Document parsed, mtimeMs)) = (getDefaultParams, loader)"
    by (simp add: loadParams_def convertNewToOldFormat_def convertMarkets_null_block)
  have np: "mtimeMs > lastModified loader \<and> doc_entry_params parsed = Defined NoPerMarket \<Longrightarrow>
      fst (getMarketParams (pollTick loader (Some (Document parsed, mtimeMs))) disk' marketKey)
        = Inl TypeError"
    by (simp add: getMarketParams_def getParams_def pollTick_def loadParams_def isNewFormat_def
          readOldFormat_def validateParams_def orEmptySection_def definedOnly_def sectionAt_def Let_def)
  show ?thesis
    using nb np by (auto simp: getParams_def pollTick_def loadParams_def Let_def)
qed

theorem failed_reload_defaults_witness:
  "fst (getParams (pollTick exLoader (Some (Malformed, 200))) (Some (Malformed, 200))) = getDefaultParams \<and>
   lastModified (pollTick exLoader (Some (Malformed, 200))) = 100 \<and>
   fst (getParams (pollTick exLoader (Some (Document exNullMarket, 200))) (Some (Document exNullMarket, 200)))
     = getDefaultParams \<and>
   lastModified (pollTick exLoader (Some (Document exNullMarket, 200))) = 100 \<and>
   pollTick exLoader (Some (Malformed, 100)) = exLoader \<and>
   fst (getParams exLoader (Some (Malformed, 200))) = exSnapshot \<and>
   fst (getMarketParams (pollTick exLoader (Some (Document exNoPerMarket, 200)))
          (Some (Document exNoPerMarket, 200)) ''BTC_15m'') = Inl TypeError"
  using failed_reload_defaults
    [where mtimeMs = 200 and disk' = "Some (Malformed, 200)" and loader = exLoader and parsed = exNullMarket]
    failed_reload_defaults
    [where mtimeMs = 200 and disk' = "Some (Document exNullMarket, 200)" and loader = exLoader
       and parsed = exNullMarket]
    failed_reload_defaults
    [where mtimeMs = 100 and content = Malformed and loader = exLoader and parsed = exNullMarket]
    failed_reload_defaults
    [where mtimeMs = 200 and disk' = "Some (Document exNoPerMarket, 200)" and loader = exLoader
       and parsed = exNoPerMarket and marketKey = "''BTC_15m''"]
  by (simp add: exLoader_def exNullMarket_def exNoPerMarket_def isNewFormat_def marketKeys_def getParams_def)

subsection \<open>C8: market keys\<close>

text \<open>
  C8 as stated fails: \<open>includes\<close> is case-sensitive and \<open>bitcoin\<close> is not looked for, so
  lower-case and spelled-out inputs pass through verbatim.
\<close>

theorem normalizeMarketKey_counterexample:
  "strIncludes ''btc-updown-15'' ''btc'' \<and> strIncludes ''btc-updown-15'' ''15'' \<and>
   normalizeMarketKey ''btc-updown-15'' \<noteq> ''BTC_15m'' \<and>
   strIncludes ''Bitcoin 1 hour'' ''1 hour'' \<and> normalizeMarketKey ''Bitcoin 1 hour'' \<noteq> ''BTC_1h''"
  by (simp add: normalizeMarketKey_def)

lemma normalizeMarketKey_canonical:
  "normalizeMarketKey ''BTC_15m'' = ''BTC_15m''"
  "normalizeMarketKey ''ETH_15m'' = ''ETH_15m''"
  "normalizeMarketKey ''BTC_1h'' = ''BTC_1h''"
  "normalizeMarketKey ''ETH_1h'' = ''ETH_1h''"
  by (simp_all add: normalizeMarketKey_def)

text \<open>
  C8 (amended). \<open>normalizeMarketKey\<close> matches substrings case-sensitively, in this order:
  \<open>BTC\<close> and \<open>15\<close> give \<open>BTC_15m\<close>; else \<open>ETH\<close> and \<open>15\<close> give \<open>ETH_15m\<close>; else \<open>BTC\<close> and
  \<open>1h\<close> or \<open>1 hour\<close> give \<open>BTC_1h\<close>; else \<open>ETH\<close> and \<open>1h\<close> or \<open>1 hour\<close> give \<open>ETH_1h\<close>.
  An input with neither asset or with no period marker is returned verbatim, the four
  canonical keys are returned unchanged, and normalizing twice is normalizing once.
\<close>

theorem normalizeMarketKey_case_sensitive:
  "(strIncludes k ''BTC'' \<and> strIncludes k ''15'' \<longrightarrow> normalizeMarketKey k = ''BTC_15m'') \<and>
   (\<not> strIncludes k ''BTC'' \<and> strIncludes k ''ETH'' \<and> strIncludes k ''15'' \<longrightarrow>
      normalizeMarketKey k = ''ETH_15m'') \<and>
   (\<not> strIncludes k ''15'' \<and> strIncludes k ''BTC'' \<and> (strIncludes k ''1h'' \<or> strIncludes k ''1 hour'') \<longrightarrow>
      normalizeMarketKey k = ''BTC_1h'') \<and>
   (\<not> strIncludes k ''15'' \<and> \<not> strIncludes k ''BTC'' \<and> strIncludes k ''ETH'' \<and>
    (strIncludes k ''1h'' \<or> strIncludes k ''1 hour'') \<longrightarrow>
      normalizeMarketKey k = ''ETH_1h'') \<and>
   ((\<not> strIncludes k ''BTC'' \<and> \<not> strIncludes k ''ETH'') \<or>
    (\<not> strIncludes k ''15'' \<and> \<not> strIncludes k ''1h'' \<and> \<not> strIncludes k ''1 hour'') \<longrightarrow>
      normalizeMarketKey k = k) \<and>
   (k \<in> set marketKeys \<longrightarrow> normalizeMarketKey k = k) \<and>
   normalizeMarketKey (normalizeMarketKey k) = normalizeMarketKey k"
proof -
  have canon: "\<And>x. x \<in> set marketKeys \<Longrightarrow> normalizeMarketKey x = x"
    by (auto simp: marketKeys_def normalizeMarketKey_canonical)
  have "normalizeMarketKey k \<in> set marketKeys \<or> normalizeMarketKey k = k"
    by (simp add: normalizeMarketKey_def marketKeys_def)
  then have idem: "normalizeMarketKey (normalizeMarketKey k) = normalizeMarketKey k"
    using canon by auto
  show ?thesis
    using canon [of k] idem by (simp add: normalizeMarketKey_def)
qed

theorem normalizeMarketKey_case_sensitive_witness:
  "normalizeMarketKey ''BTC-UpDown-15'' = ''BTC_15m'' \<and>
   normalizeMarketKey ''ETH-UpDown-15'' = ''ETH_15m'' \<and>
   normalizeMarketKey ''BTC-UpDown-1h'' = ''BTC_1h'' \<and>
   normalizeMarketKey ''ETH 1 hour'' = ''ETH_1h'' \<and>
   normalizeMarketKey ''SOL-UpDown-15'' = ''SOL-UpDown-15'' \<and>
   normalizeMarketKey ''ETH_1h'' = ''ETH_1h''"
  using normalizeMarketKey_case_sensitive [of "''BTC-UpDown-15''"]
    normalizeMarketKey_case_sensitive [of "''ETH-UpDown-15''"]
    normalizeMarketKey_case_sensitive [of "''BTC-UpDown-1h''"]
    normalizeMarketKey_case_sensitive [of "''ETH 1 hour''"]
    normalizeMarketKey_case_sensitive [of "''SOL-UpDown-15''"]
    normalizeMarketKey_case_sensitive [of "''ETH_1h''"]
  by (simp add: marketKeys_def)

subsection \<open>C5: the inventory-conditioning scenario\<close>

lemma scn_price_key:
  "priceBucketKeyOf [0, 0.2, 0.4, 0.6, 0.8, 1.0] (priceBucketIndexOf [0, 0.2, 0.4, 0.6, 0.8, 1.0] 0.3)
   = ''(0.2, 0.4]''"
  by (simp add: priceBucketKeyOf_def priceBucketIndexOf_def findPriceBucket_def numToString_eval)

lemma scn_inv_bucket:
  "invBucketIndexOf [0, 1, 2] (50 / max 100 (1 / 10 ^ 6)) = 0"
  "invBucketIndexOf [0, 1, 2] (100 / max 50 (1 / 10 ^ 6)) = 1"
  by (simp_all add: invBucketIndexOf_def)

lemma scn_median: "medianOr1 (size_table scnSizeParams) = 15"
  by (simp add: medianOr1_def scnSizeParams_def)

lemma scn_low:
  "sizeForTrade scnState (initFeatures scnState) (Some scnSizeParams) UP (Some invLow) = Inr 15"
  using scn_price_key scn_inv_bucket scn_median
  by (simp add: sizeForTrade_def scnState_def scnSizeParams_def invLow_def Let_def tableGet_def
       inventoryBucketLabelOf_def natToString_small digitChar_def)

lemma scn_high:
  "sizeForTrade scnState (initFeatures scnState) (Some scnSizeParams) UP (Some invHigh) = Inr 15"
  using scn_price_key scn_inv_bucket scn_median
  by (simp add: sizeForTrade_def scnState_def scnSizeParams_def invHigh_def Let_def tableGet_def
       inventoryBucketLabelOf_def natToString_small digitChar_def)

text \<open>
  C5 as stated fails: for \<open>inv_up = 50\<close>, \<open>inv_down = 100\<close> the size is 15, not 5.
\<close>

theorem sizeForTrade_scenario_counterexample:
  "sizeForTrade scnState (initFeatures scnState) (Some scnSizeParams) UP (Some invLow) \<noteq> Inr 5"
  by (simp add: scn_low)

text \<open>
  C5 (amended). With \<open>bin_edges = [0, 0.2, 0.4, 0.6, 0.8, 1.0]\<close>, the size table, thresholds
  and bucket labels of the scenario, \<open>up = 0.3\<close> and side UP, the price bucket is
  \<open>(0.2, 0.4]\<close>; the inventory \<open>(50, 100)\<close> has ratio 0.5 and bucket 0, the inventory
  \<open>(100, 50)\<close> has ratio 2 and bucket 1; the size table has no key for this price bucket,
  so both lookups fall through to the median of the table, and \<open>sizeForTrade\<close> returns 15
  for both inventories.
\<close>

theorem sizeForTrade_scenario:
  "sizeForTrade scnState (initFeatures scnState) (Some scnSizeParams) UP (Some invLow) = Inr 15 \<and>
   sizeForTrade scnState (initFeatures scnState) (Some scnSizeParams) UP (Some invHigh) = Inr 15 \<and>
   priceBucketKeyOf [0, 0.2, 0.4, 0.6, 0.8, 1.0] (priceBucketIndexOf [0, 0.2, 0.4, 0.6, 0.8, 1.0] (up_px scnState))
     = ''(0.2, 0.4]'' \<and>
   inv_up_shares invLow / max (inv_down_shares invLow) (1 / 10 ^ 6) = 0.5 \<and>
   invBucketIndexOf [0, 1, 2] (inv_up_shares invLow / max (inv_down_shares invLow) (1 / 10 ^ 6)) = 0 \<and>
   inv_up_shares invHigh / max (inv_down_shares invHigh) (1 / 10 ^ 6) = 2 \<and>
   invBucketIndexOf [0, 1, 2] (inv_up_shares invHigh / max (inv_down_shares invHigh) (1 / 10 ^ 6)) = 1 \<and>
   medianOr1 (size_table scnSizeParams) = 15"
  using scn_low scn_high scn_price_key scn_inv_bucket scn_median
  by (simp add: scnState_def invLow_def invHigh_def)

subsection \<open>C4: the last price snapshot\<close>

text \<open>
  C4 as stated fails: a tick that the quality filter rejects returns before the snapshot is
  written. On a fresh market a tick with \<open>up + down = 1.8\<close> is rejected and leaves no
  snapshot behind.
\<close>

theorem shouldTrade_snapshot_counterexample:
  "fst (shouldTrade emptyIntegrator ''BTC_15m'' 1000 0.9 0.9 (noParams\<lparr> quality_filter_params := Some exQuality \<rparr>))
     = Inr (noTrade ''data_quality_filter_failed'' 1) \<and>
   lastPriceState (snd (shouldTrade emptyIntegrator ''BTC_15m'' 1000 0.9 0.9
                          (noParams\<lparr> quality_filter_params := Some exQuality \<rparr>))) ''BTC_15m''
     \<noteq> Some \<lparr> lp_up_px = 0.9, lp_down_px = 0.9, lp_timestamp = 1000 \<rparr>"
  by (simp add: shouldTrade_def Let_def emptyIntegrator_def noParams_def exQuality_def
        checkDataQuality_def updatePriceHistory_def)

text \<open>
  C4 (what the code does). A tick that the quality filter rejects returns the decision
  \<open>data_quality_filter_failed\<close> and leaves the last price snapshots as they were. Every other
  tick, whatever it decides afterwards, stores \<open>(up, down, timestamp)\<close> as the snapshot of
  its market and changes no other market's snapshot. So a tick that comes more than
  \<open>timestamp_jump_threshold_seconds\<close> after the snapshot \<open>lp\<close> of its market is rejected and
  leaves \<open>lp\<close> in place, and every later tick of that market, whatever its prices, is
  rejected against the same \<open>lp\<close> in turn: the market takes no decision again.
\<close>

theorem shouldTrade_snapshot:
  "(quality_filter_params mp \<noteq> None \<and>
    \<not> checkDataQuality \<lparr> timestamp = now, up_px = upPx, down_px = downPx, market = mkt \<rparr>
        (lastPriceState s mkt) (quality_filter_params mp) \<longrightarrow>
      fst (shouldTrade s mkt now upPx downPx mp)
        = Inr (noTrade ''data_quality_filter_failed'' (decisionIdCounter s + 1)) \<and>
      lastPriceState (snd (shouldTrade s mkt now upPx downPx mp)) = lastPriceState s) \<and>
   (\<not> (quality_filter_params mp \<noteq> None \<and>
       \<not> checkDataQuality \<lparr> timestamp = now, up_px = upPx, down_px = downPx, market = mkt \<rparr>
           (lastPriceState s mkt) (quality_filter_params mp)) \<longrightarrow>
      lastPriceState (snd (shouldTrade s mkt now upPx downPx mp))
        = (lastPriceState s)(mkt \<mapsto> \<lparr> lp_up_px = upPx, lp_down_px = downPx, lp_timestamp = now \<rparr>)) \<and>
   (quality_filter_params mp = Some qf \<and> lastPriceState s mkt = Some lp \<and>
    timestamp_jump_threshold_seconds qf < (now - lp_timestamp lp) / 1000 \<and> now \<le> now' \<longrightarrow>
      fst (shouldTrade s mkt now upPx downPx mp)
        = Inr (noTrade ''data_quality_filter_failed'' (decisionIdCounter s + 1)) \<and>
      lastPriceState (snd (shouldTrade s mkt now upPx downPx mp)) mkt = Some lp \<and>
      fst (shouldTrade (snd (shouldTrade s mkt now upPx downPx mp)) mkt now' upPx' downPx' mp)
        = Inr (noTrade ''data_quality_filter_failed'' (decisionIdCounter s + 2)) \<and>
      lastPriceState (snd (shouldTrade (snd (shouldTrade s mkt now upPx downPx mp)) mkt now' upPx' downPx' mp)) mkt
        = Some lp)"
proof (intro conjI impI)
  assume a: "quality_filter_params mp = Some qf \<and> lastPriceState s mkt = Some lp \<and>
    timestamp_jump_threshold_seconds qf < (now - lp_timestamp lp) / 1000 \<and> now \<le> now'"
  then have j1: "\<not> checkDataQuality \<lparr> timestamp = now, up_px = upPx, down_px = downPx, market = mkt \<rparr>
        (lastPriceState s mkt) (quality_filter_params mp)"
    by (simp add: checkDataQuality_jump)
  from a have "timestamp_jump_threshold_seconds qf < (now' - lp_timestamp lp) / 1000"
    by (simp add: field_simps)
  with a have j2: "\<not> checkDataQuality \<lparr> timestamp = now', up_px = upPx', down_px = downPx', market = mkt \<rparr>
        (Some lp) (quality_filter_params mp)"
    by (simp add: checkDataQuality_jump)
  have q: "quality_filter_params mp \<noteq> None" using a by simp
  show r1: "fst (shouldTrade s mkt now upPx downPx mp)
        = Inr (noTrade ''data_quality_filter_failed'' (decisionIdCounter s + 1))"
    using q j1 by (simp add: shouldTrade_rejected)
  show l1: "lastPriceState (snd (shouldTrade s mkt now upPx downPx mp)) mkt = Some lp"
    using q j1 a by (simp add: lastPriceState_shouldTrade)
  show "fst (shouldTrade (snd (shouldTrade s mkt now upPx downPx mp)) mkt now' upPx' downPx' mp)
        = Inr (noTrade ''data_quality_filter_failed'' (decisionIdCounter s + 2))"
    using q j2 l1 by (simp add: shouldTrade_rejected shouldTrade_counter)
  show "lastPriceState (snd (shouldTrade (snd (shouldTrade s mkt now upPx downPx mp)) mkt now' upPx' downPx' mp)) mkt
        = Some lp"
    using q j2 l1 by (simp add: lastPriceState_shouldTrade)
qed (auto simp: shouldTrade_rejected lastPriceState_shouldTrade)

theorem shouldTrade_snapshot_witness:
  "lastPriceState (snd (shouldTrade emptyIntegrator ''BTC_15m'' 1000 0.9 0.9
                          (noParams\<lparr> quality_filter_params := Some exQuality \<rparr>))) = Map.empty \<and>
   lastPriceState (snd (shouldTrade emptyIntegrator ''BTC_15m'' 1000 0.4 0.6
                          (noParams\<lparr> quality_filter_params := Some exQuality \<rparr>)))
     = [''BTC_15m'' \<mapsto> \<lparr> lp_up_px = 0.4, lp_down_px = 0.6, lp_timestamp = 1000 \<rparr>] \<and>
   fst (shouldTrade staleIntegrator ''BTC_15m'' 61000 0.5 0.5 paperParams)
     = Inr (noTrade ''data_quality_filter_failed'' 1) \<and>
   lastPriceState (snd (shouldTrade staleIntegrator ''BTC_15m'' 61000 0.5 0.5 paperParams)) ''BTC_15m''
     = Some \<lparr> lp_up_px = 0.5, lp_down_px = 0.5, lp_timestamp = 0 \<rparr> \<and>
   fst (shouldTrade (snd (shouldTrade staleIntegrator ''BTC_15m'' 61000 0.5 0.5 paperParams))
          ''BTC_15m'' 62000 0.5 0.5 paperParams)
     = Inr (noTrade ''data_quality_filter_failed'' 2) \<and>
   lastPriceState (snd (shouldTrade (snd (shouldTrade staleIntegrator ''BTC_15m'' 61000 0.5 0.5 paperParams))
          ''BTC_15m'' 62000 0.5 0.5 paperParams)) ''BTC_15m''
     = Some \<lparr> lp_up_px = 0.5, lp_down_px = 0.5, lp_timestamp = 0 \<rparr>"
  using shouldTrade_snapshot [where s = emptyIntegrator and mkt = "''BTC_15m''" and now = 1000
      and upPx = "0.9" and downPx = "0.9" and mp = "noParams\<lparr> quality_filter_params := Some exQuality \<rparr>"
      and qf = exQuality and lp = "\<lparr> lp_up_px = 0.5, lp_down_px = 0.5, lp_timestamp = 0 \<rparr>"]
    shouldTrade_snapshot [where s = emptyIntegrator and mkt = "''BTC_15m''" and now = 1000
      and upPx = "0.4" and downPx = "0.6" and mp = "noParams\<lparr> quality_filter_params := Some exQuality \<rparr>"
      and qf = exQuality and lp = "\<lparr> lp_up_px = 0.5, lp_down_px = 0.5, lp_timestamp = 0 \<rparr>"]
    shouldTrade_snapshot [where s = staleIntegrator and mkt = "''BTC_15m''" and now = 61000 and now' = 62000
      and upPx = "0.5" and downPx = "0.5" and upPx' = "0.5" and downPx' = "0.5" and mp = paperParams
      and qf = exQuality and lp = "\<lparr> lp_up_px = 0.5, lp_down_px = 0.5, lp_timestamp = 0 \<rparr>"]
  by (simp add: emptyIntegrator_def staleIntegrator_def noParams_def paperParams_def exQuality_def
        checkDataQuality_def)

subsection \<open>C3: the size lookup without inventory\<close>

text \<open>
  C3 as stated fails: with \<open>conditioning_var = inventory_imbalance_ratio\<close> and three
  thresholds, a tick completes when \<open>bin_edges\<close> has fewer than two entries (the size lookup
  returns 1 before it reads the inventory), and a tick completes when an earlier gate
  stops it (here momentum is not met).
\<close>

theorem shouldTrade_undefined_inventory_counterexample:
  "conditioning_var (scnSizeParams\<lparr> bin_edges := Some [0.5] \<rparr>) = Some ''inventory_imbalance_ratio'' \<and>
   inventory_bucket_thresholds (scnSizeParams\<lparr> bin_edges := Some [0.5] \<rparr>) = Some [0, 1, 2] \<and>
   fst (shouldTrade emptyIntegrator ''BTC_15m'' 1000 0.5 0.5
          (tradeParams\<lparr> size_params := Some (scnSizeParams\<lparr> bin_edges := Some [0.5] \<rparr>) \<rparr>))
   = Inr \<lparr> d_shouldTrade = True, d_side = Some UP, shares = 1, d_reason = ''up_price_band'',
           decisionId = 1, fillPrice = Some 0.5 \<rparr> \<and>
   fst (shouldTrade emptyIntegrator ''BTC_15m'' 1000 0.5 0.5
          (tradeParams\<lparr> entry_params := Some (exEntry\<lparr> mode := ''momentum'' \<rparr>) \<rparr>))
   = Inr (noTrade ''no_band_match'' 1)"
  by (simp add: first_tick_eval)

text \<open>
  C3 (amended). \<open>shouldTrade\<close> calls the size lookup without the inventory argument. For
  market parameters whose \<open>size_params\<close> have at least two \<open>bin_edges\<close> and
  \<open>conditioning_var = inventory_imbalance_ratio\<close> (whatever the thresholds), the size lookup
  then throws on reading the undefined inventory. A tick throws exactly when it gets as far
  as the size lookup, that is, when the same tick without size parameters would return a
  trade or be stopped by the inventory gate; every other tick completes with the no-trade
  decision of the gate that stopped it. Such parameters never yield a trade.
\<close>

theorem shouldTrade_undefined_inventory:
  assumes "size_params mp = Some sp" "bin_edges sp = Some es" "2 \<le> length es"
    "conditioning_var sp = Some ''inventory_imbalance_ratio''"
  shows "sizeForTrade st f (size_params mp) sd None = Inl TypeError \<and>
         (fst (shouldTrade s mkt now upPx downPx mp) = Inl TypeError \<longleftrightarrow>
            (\<exists>d. fst (shouldTrade s mkt now upPx downPx (mp\<lparr> size_params := None \<rparr>)) = Inr d \<and>
                 (d_shouldTrade d \<or> d_reason d = ''inventory_limit_exceeded''))) \<and>
         (fst (shouldTrade s mkt now upPx downPx mp) \<noteq> Inl TypeError \<longrightarrow>
            (\<exists>d. fst (shouldTrade s mkt now upPx downPx mp) = Inr d \<and> \<not> d_shouldTrade d \<and>
                 fst (shouldTrade s mkt now upPx downPx (mp\<lparr> size_params := None \<rparr>)) = Inr d))"
proof -
  have size: "sizeForTrade st f (size_params mp) sd None = Inl TypeError"
    using assms by (simp add: sizeForTrade_undefined_inventory)
  show ?thesis
  proof (cases "quality_filter_params mp \<noteq> None \<and>
      \<not> checkDataQuality \<lparr> timestamp = now, up_px = upPx, down_px = downPx, market = mkt \<rparr>
          (lastPriceState s mkt) (quality_filter_params mp)")
    case True
    then show ?thesis
      using size shouldTrade_rejected [of mp now upPx downPx mkt s]
        shouldTrade_rejected [of "mp\<lparr> size_params := None \<rparr>" now upPx downPx mkt s]
      by simp
  next
    case False
    then have nq: "\<not> (quality_filter_params (mp\<lparr> size_params := None \<rparr>) \<noteq> None \<and>
      \<not> checkDataQuality \<lparr> timestamp = now, up_px = upPx, down_px = downPx, market = mkt \<rparr>
          (lastPriceState s mkt) (quality_filter_params (mp\<lparr> size_params := None \<rparr>)))"
      by simp
    show ?thesis
      unfolding shouldTrade_accepted [OF False] shouldTrade_accepted [OF nq]
      using size decideGates_undefined_inventory [OF assms]
      by (simp add: decideAfterSnapshot_def Let_def)
  qed
qed

theorem shouldTrade_undefined_inventory_witness:
  "fst (shouldTrade emptyIntegrator ''BTC_15m'' 1000 0.5 0.5 tradeParams) = Inl TypeError \<and>
   fst (shouldTrade emptyIntegrator ''BTC_15m'' 1000 0.5 0.5
          (tradeParams\<lparr> entry_params := Some (exEntry\<lparr> mode := ''momentum'' \<rparr>) \<rparr>))
   = fst (shouldTrade emptyIntegrator ''BTC_15m'' 1000 0.5 0.5
          (tradeParams\<lparr> entry_params := Some (exEntry\<lparr> mode := ''momentum'' \<rparr>), size_params := None \<rparr>))"
proof -
  have sp: "size_params tradeParams = Some scnSizeParams"
    "size_params (tradeParams\<lparr> entry_params := Some (exEntry\<lparr> mode := ''momentum'' \<rparr>) \<rparr>) = Some scnSizeParams"
    "bin_edges scnSizeParams = Some [0, 0.2, 0.4, 0.6, 0.8, 1.0]"
    "2 \<le> length [0, 0.2, 0.4, 0.6, 0.8, 1.0 :: real]"
    "conditioning_var scnSizeParams = Some ''inventory_imbalance_ratio''"
    by (simp_all add: tradeParams_def scnSizeParams_def)
  have blocked: "fst (shouldTrade emptyIntegrator ''BTC_15m'' 1000 0.5 0.5
          (tradeParams\<lparr> entry_params := Some (exEntry\<lparr> mode := ''momentum'' \<rparr>) \<rparr>))
     = Inr (noTrade ''no_band_match'' 1)"
    by (simp add: first_tick_eval)
  show ?thesis
    using shouldTrade_undefined_inventory
        [OF sp(1) sp(3) sp(4) sp(5), where s = emptyIntegrator and mkt = "''BTC_15m''" and now = 1000
           and upPx = "0.5" and downPx = "0.5"]
      shouldTrade_undefined_inventory
        [OF sp(2) sp(3) sp(4) sp(5), where s = emptyIntegrator and mkt = "''BTC_15m''" and now = 1000
           and upPx = "0.5" and downPx = "0.5"]
      first_tick_paperParams blocked
    by (simp add: tradeParams_no_size)
qed

subsection \<open>C6: two calls with the same arguments\<close>

text \<open>
  C6 as stated fails: every call increments the decision counter, so the second of two equal
  calls returns another \<open>decisionId\<close>. The other fields can differ as well. With a full
  price history whose oldest entry is the one closest to \<open>now - 5000\<close>, the first call
  trades on the 5 s momentum and evicts nothing, the second evicts that entry and finds no
  momentum. With a negative \<open>timestamp_jump_threshold_seconds\<close> the first call of a fresh
  market trades and the second is rejected by the quality filter against the snapshot the
  first has stored.
\<close>

theorem shouldTrade_twice_counterexample:
  "fst (shouldTrade (snd (shouldTrade emptyIntegrator ''BTC_15m'' 1000 0.5 0.5 paperParams))
          ''BTC_15m'' 1000 0.5 0.5 paperParams)
   \<noteq> fst (shouldTrade emptyIntegrator ''BTC_15m'' 1000 0.5 0.5 paperParams) \<and>
   fst (shouldTrade (fullIntegrator 15000) ''BTC_15m'' 20000 0.5 0.5 momentumParams)
   = Inr \<lparr> d_shouldTrade = True, d_side = Some UP, shares = 1, d_reason = ''momentum_met'',
           decisionId = 1, fillPrice = Some 0.5 \<rparr> \<and>
   fst (shouldTrade (snd (shouldTrade (fullIntegrator 15000) ''BTC_15m'' 20000 0.5 0.5 momentumParams))
          ''BTC_15m'' 20000 0.5 0.5 momentumParams)
   = Inr \<lparr> d_shouldTrade = False, d_side = None, shares = 0, d_reason = ''no_band_match'',
           decisionId = 2, fillPrice = None \<rparr> \<and>
   fst (shouldTrade emptyIntegrator ''BTC_15m'' 1000 0.5 0.5
          (paperParams\<lparr> quality_filter_params := Some hastyQuality \<rparr>))
   = Inr \<lparr> d_shouldTrade = True, d_side = Some UP, shares = 1, d_reason = ''up_price_band'',
           decisionId = 1, fillPrice = Some 0.5 \<rparr> \<and>
   fst (shouldTrade (snd (shouldTrade emptyIntegrator ''BTC_15m'' 1000 0.5 0.5
                            (paperParams\<lparr> quality_filter_params := Some hastyQuality \<rparr>)))
          ''BTC_15m'' 1000 0.5 0.5 (paperParams\<lparr> quality_filter_params := Some hastyQuality \<rparr>))
   = Inr \<lparr> d_shouldTrade = False, d_side = None, shares = 0, d_reason = ''data_quality_filter_failed'',
           decisionId = 2, fillPrice = None \<rparr>"
proof -
  have "fst (shouldTrade (snd (shouldTrade emptyIntegrator ''BTC_15m'' 1000 0.5 0.5 paperParams))
          ''BTC_15m'' 1000 0.5 0.5 paperParams)
   \<noteq> fst (shouldTrade emptyIntegrator ''BTC_15m'' 1000 0.5 0.5 paperParams)"
  proof
    assume eq: "fst (shouldTrade (snd (shouldTrade emptyIntegrator ''BTC_15m'' 1000 0.5 0.5 paperParams))
            ''BTC_15m'' 1000 0.5 0.5 paperParams)
     = fst (shouldTrade emptyIntegrator ''BTC_15m'' 1000 0.5 0.5 paperParams)"
    have "decisionIdCounter (snd (shouldTrade emptyIntegrator ''BTC_15m'' 1000 0.5 0.5 paperParams)) = 1"
      by (simp add: shouldTrade_counter emptyIntegrator_def)
    with shouldTrade_id [OF eq [unfolded first_tick_paperParams]]
    show False by simp
  qed
  then show ?thesis
    using full_second hasty_second
    unfolding full_first hasty_first
    by (simp add: noTrade_def)
qed

text \<open>
  C6 (amended). Of two successive calls of \<open>shouldTrade\<close> with the same arguments, the first
  returns \<open>decisionId = counter + 1\<close> and the second \<open>counter + 2\<close>. The second call returns
  what the first returned (the same decision fields, or the same exception) with only the
  \<open>decisionId\<close> replaced, when the quality filter's \<open>timestamp_jump_threshold_seconds\<close> and
  \<open>price_gap_threshold\<close> are not negative and the entry that the second call evicts is not
  the one the 5 s window selects: whenever the first call leaves the market's price history
  full (\<open>maxHistoryLength\<close> entries), some other entry of it is strictly closer to
  \<open>now - 5000\<close> than its oldest entry. The tick itself is in the history at distance 5000, so
  this holds for every oldest entry older than \<open>now - 10000\<close>.
\<close>

theorem shouldTrade_twice:
  "(\<forall>d1 d2. fst (shouldTrade s mkt now upPx downPx mp) = Inr d1 \<and>
            fst (shouldTrade (snd (shouldTrade s mkt now upPx downPx mp)) mkt now upPx downPx mp) = Inr d2 \<longrightarrow>
            decisionId d1 = decisionIdCounter s + 1 \<and> decisionId d2 = decisionIdCounter s + 2) \<and>
   ((\<forall>e rest. priceHistory (snd (shouldTrade s mkt now upPx downPx mp)) mkt = Some (e # rest) \<and>
              maxHistoryLength \<le> length (e # rest) \<longrightarrow>
              (\<exists>x\<in>set rest. \<bar>h_timestamp x - (now - 5000)\<bar> < \<bar>h_timestamp e - (now - 5000)\<bar>)) \<and>
    (\<forall>qf. quality_filter_params mp = Some qf \<longrightarrow>
          0 \<le> timestamp_jump_threshold_seconds qf \<and> 0 \<le> price_gap_threshold qf) \<longrightarrow>
    fst (shouldTrade (snd (shouldTrade s mkt now upPx downPx mp)) mkt now upPx downPx mp)
      = map_sum id (\<lambda>d. d\<lparr> decisionId := decisionIdCounter s + 2 \<rparr>)
          (fst (shouldTrade s mkt now upPx downPx mp)))"
proof (intro conjI allI impI)
  fix d1 d2
  assume a: "fst (shouldTrade s mkt now upPx downPx mp) = Inr d1 \<and>
     fst (shouldTrade (snd (shouldTrade s mkt now upPx downPx mp)) mkt now upPx downPx mp) = Inr d2"
  show "decisionId d1 = decisionIdCounter s + 1"
    using a shouldTrade_id by blast
  show "decisionId d2 = decisionIdCounter s + 2"
    using a shouldTrade_id [where s = "snd (shouldTrade s mkt now upPx downPx mp)" and d = d2
        and mkt = mkt and now = now and upPx = upPx and downPx = downPx and mp = mp]
    by (simp add: shouldTrade_counter)
next
  assume h: "(\<forall>e rest. priceHistory (snd (shouldTrade s mkt now upPx downPx mp)) mkt = Some (e # rest) \<and>
              maxHistoryLength \<le> length (e # rest) \<longrightarrow>
              (\<exists>x\<in>set rest. \<bar>h_timestamp x - (now - 5000)\<bar> < \<bar>h_timestamp e - (now - 5000)\<bar>)) \<and>
    (\<forall>qf. quality_filter_params mp = Some qf \<longrightarrow>
          0 \<le> timestamp_jump_threshold_seconds qf \<and> 0 \<le> price_gap_threshold qf)"
  let ?st = "\<lparr> timestamp = now, up_px = upPx, down_px = downPx, market = mkt \<rparr>"
  let ?cur = "\<lparr> lp_up_px = upPx, lp_down_px = downPx, lp_timestamp = now \<rparr>"
  let ?c = "\<lparr> h_timestamp = now, h_up_px = upPx, h_down_px = downPx \<rparr>"
  let ?h0 = "case priceHistory s mkt of None \<Rightarrow> [] | Some h \<Rightarrow> h"
  let ?rej = "\<lambda>lp. quality_filter_params mp \<noteq> None \<and> \<not> checkDataQuality ?st lp (quality_filter_params mp)"
  show "fst (shouldTrade (snd (shouldTrade s mkt now upPx downPx mp)) mkt now upPx downPx mp)
      = map_sum id (\<lambda>d. d\<lparr> decisionId := decisionIdCounter s + 2 \<rparr>)
          (fst (shouldTrade s mkt now upPx downPx mp))"
  proof (cases "?rej (lastPriceState s mkt)")
    case True
    then have r1: "shouldTrade s mkt now upPx downPx mp
         = (Inr (noTrade ''data_quality_filter_failed'' (decisionIdCounter s + 1)),
            updatePriceHistory (resetIfNeeded (s\<lparr> decisionIdCounter := decisionIdCounter s + 1 \<rparr>) mkt now mp)
              mkt now upPx downPx)"
      by (simp add: shouldTrade_rejected)
    show ?thesis
      unfolding r1 using True
      by (simp add: shouldTrade_rejected noTrade_def)
  next
    case False
    define s4 where "s4 =
      (updatePriceHistory (resetIfNeeded (s\<lparr> decisionIdCounter := decisionIdCounter s + 1 \<rparr>) mkt now mp)
         mkt now upPx downPx)
        \<lparr> lastPriceState := (lastPriceState s)(mkt \<mapsto> ?cur) \<rparr>"
    define s5 where "s5 = snd (getInventory s4 mkt)"
    define t4 where "t4 =
      (updatePriceHistory (resetIfNeeded (s5\<lparr> decisionIdCounter := decisionIdCounter s5 + 1 \<rparr>) mkt now mp)
         mkt now upPx downPx)
        \<lparr> lastPriceState := (lastPriceState s5)(mkt \<mapsto> ?cur) \<rparr>"
    have r1: "shouldTrade s mkt now upPx downPx mp
              = decideAfterSnapshot s4 mkt now upPx downPx mp (decisionIdCounter s + 1)"
      unfolding s4_def using False by (rule shouldTrade_accepted)
    have lp5: "lastPriceState s5 mkt = Some ?cur"
      by (simp add: s5_def s4_def)
    have acc2: "\<not> ?rej (lastPriceState s5 mkt)"
    proof (cases "quality_filter_params mp")
      case None
      then show ?thesis by simp
    next
      case (Some qf)
      with False have "checkDataQuality ?st (lastPriceState s mkt) (Some qf)" by simp
      with h Some show ?thesis
        by (simp add: lp5 checkDataQuality_same_tick)
    qed
    have r2: "shouldTrade s5 mkt now upPx downPx mp
              = decideAfterSnapshot t4 mkt now upPx downPx mp (decisionIdCounter s5 + 1)"
      unfolding t4_def using acc2 by (rule shouldTrade_accepted)
    obtain W where W: "(if length (?h0 @ [?c]) > maxHistoryLength then tl (?h0 @ [?c]) else ?h0 @ [?c]) = W @ [?c]"
      using trimmed_history_ends_with_tick [of ?h0 ?c] by blast
    have h1: "priceHistory s4 mkt = Some (W @ [?c])"
    proof -
      have ph: "priceHistory (resetIfNeeded (s\<lparr> decisionIdCounter := decisionIdCounter s + 1 \<rparr>) mkt now mp)
                = priceHistory s"
        by simp
      have "priceHistory s4 mkt
            = priceHistory (updatePriceHistory
                (resetIfNeeded (s\<lparr> decisionIdCounter := decisionIdCounter s + 1 \<rparr>) mkt now mp)
                mkt now upPx downPx) mkt"
        by (simp add: s4_def)
      also have "\<dots> = Some (if length (?h0 @ [?c]) > maxHistoryLength then tl (?h0 @ [?c]) else ?h0 @ [?c])"
        by (simp only: priceHistory_updatePriceHistory_trim ph)
      also have "\<dots> = Some (W @ [?c])"
        by (simp only: W)
      finally show ?thesis .
    qed
    have h5: "priceHistory s5 mkt = Some (W @ [?c])"
      by (simp add: s5_def h1)
    have h2: "priceHistory t4 mkt
        = Some (if length ((W @ [?c]) @ [?c]) > maxHistoryLength then tl ((W @ [?c]) @ [?c]) else (W @ [?c]) @ [?c])"
    proof -
      have ph: "priceHistory (resetIfNeeded (s5\<lparr> decisionIdCounter := decisionIdCounter s5 + 1 \<rparr>) mkt now mp)
                = priceHistory s5"
        by simp
      have "priceHistory t4 mkt
            = priceHistory (updatePriceHistory
                (resetIfNeeded (s5\<lparr> decisionIdCounter := decisionIdCounter s5 + 1 \<rparr>) mkt now mp)
                mkt now upPx downPx) mkt"
        by (simp add: t4_def)
      also have "\<dots> = Some (if length ((W @ [?c]) @ [?c]) > maxHistoryLength
                              then tl ((W @ [?c]) @ [?c]) else (W @ [?c]) @ [?c])"
        by (simp only: priceHistory_updatePriceHistory_trim ph h5 option.case)
      finally show ?thesis .
    qed
    have after1: "priceHistory (snd (shouldTrade s mkt now upPx downPx mp)) mkt = Some (W @ [?c])"
      by (simp only: r1 snd_decideAfterSnapshot getInventory_frame h1)
    have ev: "\<forall>e rest. W @ [?c] = e # rest \<and> maxHistoryLength \<le> length (e # rest) \<longrightarrow>
             (\<exists>x\<in>set rest. \<bar>h_timestamp x - (timestamp ?st - 5000)\<bar> < \<bar>h_timestamp e - (timestamp ?st - 5000)\<bar>)"
      using h after1 by simp
    have inv: "fst (getInventory t4 mkt) = fst (getInventory s4 mkt)"
      unfolding t4_def s5_def s4_def by (rule second_call_inventory)
    have tps: "tradesPerSession t4 mkt = tradesPerSession s4 mkt"
      unfolding t4_def s5_def s4_def by (rule second_call_session)
    have ltt: "lastTradeTime t4 = lastTradeTime s4" and rtt: "recentTradeTimes t4 = recentTradeTimes s4"
      by (simp_all add: t4_def s5_def)
    have cnt: "decisionIdCounter s5 + 1 = decisionIdCounter s + 2"
      by (simp add: s5_def s4_def)
    have feat: "decideGates ?st (computeFeatures ?st
                   (if length ((W @ [?c]) @ [?c]) > maxHistoryLength then tl ((W @ [?c]) @ [?c]) else (W @ [?c]) @ [?c]))
                   l i r t mp did
                = decideGates ?st (computeFeatures ?st (W @ [?c])) l i r t mp did" for l i r t did
      using computeFeatures_second_push [OF ev]
      by (intro decideGates_features) simp_all
    have "fst (shouldTrade s5 mkt now upPx downPx mp)
          = decideGates ?st (computeFeatures ?st (W @ [?c])) (getOrNull (lastTradeTime s4 mkt))
              (fst (getInventory s4 mkt)) (case recentTradeTimes s4 mkt of None \<Rightarrow> [] | Some r \<Rightarrow> r)
              (orZero (tradesPerSession s4 mkt)) mp (decisionIdCounter s + 2)"
      by (simp only: r2 fst_decideAfterSnapshot h2 inv tps ltt rtt cnt feat option.case)
    also have "\<dots> = map_sum id (\<lambda>d. d\<lparr> decisionId := decisionIdCounter s + 2 \<rparr>)
                      (fst (decideAfterSnapshot s4 mkt now upPx downPx mp (decisionIdCounter s + 1)))"
      by (simp only: fst_decideAfterSnapshot h1 option.case
            decideGates_did [where did = "decisionIdCounter s + 1" and did' = "decisionIdCounter s + 2"])
    finally show ?thesis
      by (simp only: r1 snd_decideAfterSnapshot s5_def)
  qed
qed


theorem shouldTrade_twice_witness:
  "fst (shouldTrade (snd (shouldTrade emptyIntegrator ''BTC_15m'' 1000 0.5 0.5 paperParams))
          ''BTC_15m'' 1000 0.5 0.5 paperParams)
   = Inr \<lparr> d_shouldTrade = True, d_side = Some UP, shares = 1, d_reason = ''up_price_band'',
           decisionId = 2, fillPrice = Some 0.5 \<rparr> \<and>
   fst (shouldTrade (snd (shouldTrade (fullIntegrator 1000) ''BTC_15m'' 20000 0.5 0.5 momentumParams))
          ''BTC_15m'' 20000 0.5 0.5 momentumParams)
   = Inr \<lparr> d_shouldTrade = False, d_side = None, shares = 0, d_reason = ''no_band_match'',
           decisionId = 2, fillPrice = None \<rparr>"
proof -
  have a: "fst (shouldTrade (snd (shouldTrade emptyIntegrator ''BTC_15m'' 1000 0.5 0.5 paperParams))
          ''BTC_15m'' 1000 0.5 0.5 paperParams)
   = Inr \<lparr> d_shouldTrade = True, d_side = Some UP, shares = 1, d_reason = ''up_price_band'',
           decisionId = 2, fillPrice = Some 0.5 \<rparr>"
    using shouldTrade_twice
      [where s = emptyIntegrator and mkt = "''BTC_15m''" and now = 1000 and upPx = "0.5" and downPx = "0.5"
         and mp = paperParams]
      first_tick_paperParams
    by (simp add: emptyIntegrator_def maxHistoryLength_def paperParams_def noParams_def exQuality_def
          shouldTrade_def Let_def decideAfterSnapshot_def resetIfNeeded_def updatePriceHistory_def
          getInventory_def checkDataQuality_def)
  have b: "fst (shouldTrade (snd (shouldTrade (fullIntegrator 1000) ''BTC_15m'' 20000 0.5 0.5 momentumParams))
          ''BTC_15m'' 20000 0.5 0.5 momentumParams)
   = Inr \<lparr> d_shouldTrade = False, d_side = None, shares = 0, d_reason = ''no_band_match'',
           decisionId = 2, fillPrice = None \<rparr>"
    using shouldTrade_twice
      [where s = "fullIntegrator 1000" and mkt = "''BTC_15m''" and now = 20000 and upPx = "0.5" and downPx = "0.5"
         and mp = momentumParams]
    unfolding aged_first
    by (simp add: fullHistory_def maxHistoryLength_def momentumParams_def noParams_def noTrade_def)
  from a b show ?thesis by simp
qed

end
